theory Spec2Isabelle
  imports Complex_Main "HOL-Library.Sublist"
begin

section \<open>Common model of JavaScript values\<close>

text \<open>
  A thrown JavaScript \<^verbatim>\<open>Error\<close> is a value carrying its message; a method that can
  throw returns \<open>error + 'a\<close> with \<open>Inl\<close> for the throw. Object references are natural
  numbers, and the clock and the random generator are arguments of the calls that read
  them. Numbers that the code only stores, copies and compares (font sizes,
  measurements, positions) are reals; numbers that it adds or clamps are the IEEE 754
  doubles of the next subsection.
\<close>

datatype error = Error string | TypeError string

subsection \<open>JavaScript numbers\<close>

text \<open>
  A JavaScript number is a binary64 value: a finite double, one of the two infinities, or
  \<^verbatim>\<open>NaN\<close>. A finite double is kept as the real it denotes (the sign of zero is not
  kept). The result of an arithmetic operation is the exact result rounded to the nearest
  double, ties to the even significand: 53 significant bits, the smallest unit
  \<open>pow2 (- 1074)\<close>, and overflow to infinity from \<open>pow2 1024\<close> on.
\<close>

datatype jsnum = Number real | Infinity | NegInfinity | NaN

text \<open>The number of binary digits of a natural number.\<close>

fun bit_length :: "nat \<Rightarrow> nat" where
  "bit_length n = (if n = 0 then 0 else Suc (bit_length (n div 2)))"

declare bit_length.simps [simp del]

definition pow2 :: "int \<Rightarrow> real" where
  "pow2 k = (if 0 \<le> k then 2 ^ nat k else 1 / 2 ^ nat (- k))"

text \<open>For \<open>x > 0\<close>, the exponent \<open>e\<close> with \<open>pow2 e \<le> x < pow2 (e + 1)\<close>.\<close>

definition exponent :: "real \<Rightarrow> int" where
  "exponent x =
     (if 1 \<le> x then int (bit_length (nat \<lfloor>x\<rfloor>)) - 1
      else - int (bit_length (nat (\<lceil>1 / x\<rceil> - 1))))"

definition round_half_even :: "real \<Rightarrow> int" where
  "round_half_even q =
     (let f = \<lfloor>q\<rfloor>; r = q - of_int f
      in if r < 1 / 2 then f else if 1 / 2 < r then f + 1 else if even f then f else f + 1)"

definition round_double :: "real \<Rightarrow> real" where
  "round_double x =
     (if x = 0 then 0
      else (let u = pow2 (max (exponent \<bar>x\<bar>) (- 1022) - 52)
            in sgn x * (of_int (round_half_even (\<bar>x\<bar> / u)) * u)))"

text \<open>
  \<open>double_of x\<close> is the number a computation with the exact result \<open>x\<close> returns, and the
  number a decimal literal of the value \<open>x\<close> denotes. Literals that are doubles
  themselves (small integers and halves) are written with \<open>Number\<close> directly.
\<close>

definition double_of :: "real \<Rightarrow> jsnum" where
  "double_of x =
     (let r = round_double x
      in if pow2 1024 \<le> r then Infinity else if r \<le> - pow2 1024 then NegInfinity
         else Number r)"

fun js_add :: "jsnum \<Rightarrow> jsnum \<Rightarrow> jsnum" where
  "js_add NaN b = NaN"
| "js_add a NaN = NaN"
| "js_add (Number x) (Number y) = double_of (x + y)"
| "js_add (Number x) b = b"
| "js_add a (Number y) = a"
| "js_add Infinity Infinity = Infinity"
| "js_add NegInfinity NegInfinity = NegInfinity"
| "js_add Infinity NegInfinity = NaN"
| "js_add NegInfinity Infinity = NaN"

fun js_neg :: "jsnum \<Rightarrow> jsnum" where
  "js_neg (Number x) = Number (- x)"
| "js_neg Infinity = NegInfinity"
| "js_neg NegInfinity = Infinity"
| "js_neg NaN = NaN"

definition js_sub :: "jsnum \<Rightarrow> jsnum \<Rightarrow> jsnum" where
  "js_sub a b = js_add a (js_neg b)"

text \<open>The comparisons \<^verbatim>\<open><\<close> and \<^verbatim>\<open><=\<close>: false whenever an operand is \<^verbatim>\<open>NaN\<close>.\<close>

fun js_lt :: "jsnum \<Rightarrow> jsnum \<Rightarrow> bool" where
  "js_lt NaN b = False"
| "js_lt a NaN = False"
| "js_lt (Number x) (Number y) = (x < y)"
| "js_lt (Number x) Infinity = True"
| "js_lt (Number x) NegInfinity = False"
| "js_lt NegInfinity NegInfinity = False"
| "js_lt NegInfinity b = True"
| "js_lt Infinity b = False"

fun js_le :: "jsnum \<Rightarrow> jsnum \<Rightarrow> bool" where
  "js_le NaN b = False"
| "js_le a NaN = False"
| "js_le (Number x) (Number y) = (x \<le> y)"
| "js_le NegInfinity b = True"
| "js_le a Infinity = True"
| "js_le a b = False"

text \<open>\<^verbatim>\<open>Math.max\<close> and \<^verbatim>\<open>Math.min\<close> of two numbers: \<^verbatim>\<open>NaN\<close> if either is.\<close>

definition Math_max :: "jsnum \<Rightarrow> jsnum \<Rightarrow> jsnum" where
  "Math_max a b = (if a = NaN \<or> b = NaN then NaN else if js_lt a b then b else a)"

definition Math_min :: "jsnum \<Rightarrow> jsnum \<Rightarrow> jsnum" where
  "Math_min a b = (if a = NaN \<or> b = NaN then NaN else if js_lt b a then b else a)"

section \<open>Decorator: coffee orders\<close>

text \<open>
  The class hierarchy \<^verbatim>\<open>Coffee\<close>, \<^verbatim>\<open>SimpleCoffee\<close>, \<^verbatim>\<open>CoffeeDecorator\<close> and its four
  subclasses: one constructor per class, the wrapped component as the argument.
\<close>

datatype coffee =
    Coffee
  | SimpleCoffee
  | CoffeeDecorator coffee
  | MilkDecorator coffee
  | SugarDecorator coffee
  | WhippedCreamDecorator coffee
  | VanillaSyrupDecorator coffee

fun Coffee_getCost :: "coffee \<Rightarrow> error + jsnum" where
  "Coffee_getCost Coffee = Inl (Error ''getCost method must be implemented by concrete classes'')"
| "Coffee_getCost SimpleCoffee = Inr (Number 2)"
| "Coffee_getCost (CoffeeDecorator c) = Coffee_getCost c"
| "Coffee_getCost (MilkDecorator c) =
     (case Coffee_getCost c of Inl e \<Rightarrow> Inl e | Inr x \<Rightarrow> Inr (js_add x (Number (1 / 2))))"
| "Coffee_getCost (SugarDecorator c) =
     (case Coffee_getCost c of Inl e \<Rightarrow> Inl e | Inr x \<Rightarrow> Inr (js_add x (double_of (2 / 10))))"
| "Coffee_getCost (WhippedCreamDecorator c) =
     (case Coffee_getCost c of Inl e \<Rightarrow> Inl e | Inr x \<Rightarrow> Inr (js_add x (double_of (7 / 10))))"
| "Coffee_getCost (VanillaSyrupDecorator c) =
     (case Coffee_getCost c of Inl e \<Rightarrow> Inl e | Inr x \<Rightarrow> Inr (js_add x (double_of (6 / 10))))"

fun Coffee_getDescription :: "coffee \<Rightarrow> error + string" where
  "Coffee_getDescription Coffee =
     Inl (Error ''getDescription method must be implemented by concrete classes'')"
| "Coffee_getDescription SimpleCoffee = Inr ''Simple coffee''"
| "Coffee_getDescription (CoffeeDecorator c) = Coffee_getDescription c"
| "Coffee_getDescription (MilkDecorator c) =
     (case Coffee_getDescription c of Inl e \<Rightarrow> Inl e | Inr d \<Rightarrow> Inr (d @ '', with milk''))"
| "Coffee_getDescription (SugarDecorator c) =
     (case Coffee_getDescription c of Inl e \<Rightarrow> Inl e | Inr d \<Rightarrow> Inr (d @ '', with sugar''))"
| "Coffee_getDescription (WhippedCreamDecorator c) =
     (case Coffee_getDescription c of Inl e \<Rightarrow> Inl e
      | Inr d \<Rightarrow> Inr (d @ '', with whipped cream''))"
| "Coffee_getDescription (VanillaSyrupDecorator c) =
     (case Coffee_getDescription c of Inl e \<Rightarrow> Inl e
      | Inr d \<Rightarrow> Inr (d @ '', with vanilla syrup''))"

text \<open>
  The statement side of the decorator law: the four concrete decorators, the increment
  (the double that the literal 0.5, 0.2, 0.7 or 0.6 denotes) and the suffix the
  specification gives for each, and a chain built by applying a list of decorators to a
  \<^verbatim>\<open>SimpleCoffee\<close>, the head of the list innermost.
\<close>

datatype decorator = Milk | Sugar | WhippedCream | VanillaSyrup

fun wrap :: "coffee \<Rightarrow> decorator \<Rightarrow> coffee" where
  "wrap c Milk = MilkDecorator c"
| "wrap c Sugar = SugarDecorator c"
| "wrap c WhippedCream = WhippedCreamDecorator c"
| "wrap c VanillaSyrup = VanillaSyrupDecorator c"

fun increment :: "decorator \<Rightarrow> jsnum" where
  "increment Milk = Number (1 / 2)"
| "increment Sugar = double_of (2 / 10)"
| "increment WhippedCream = double_of (7 / 10)"
| "increment VanillaSyrup = double_of (6 / 10)"

fun suffix_of :: "decorator \<Rightarrow> string" where
  "suffix_of Milk = '', with milk''"
| "suffix_of Sugar = '', with sugar''"
| "suffix_of WhippedCream = '', with whipped cream''"
| "suffix_of VanillaSyrup = '', with vanilla syrup''"

definition decorate :: "decorator list \<Rightarrow> coffee" where
  "decorate ds = foldl wrap SimpleCoffee ds"

section \<open>Memento: text editor, snapshots and the history caretaker\<close>

text \<open>
  JavaScript's \<^verbatim>\<open>String.prototype.substring(a, b)\<close>: both indices are clamped to the
  string and swapped when out of order.
\<close>

definition substring :: "string \<Rightarrow> int \<Rightarrow> int \<Rightarrow> string" where
  "substring s a b =
     (let n = int (length s);
          a' = max 0 (min n a);
          b' = max 0 (min n b);
          lo = min a' b';
          hi = max a' b'
      in take (nat (hi - lo)) (drop (nat lo) s))"

text \<open>Reading \<^verbatim>\<open>xs[i]\<close>: \<^verbatim>\<open>undefined\<close> (here \<open>None\<close>) outside the array.\<close>

definition index_at :: "'a list \<Rightarrow> int \<Rightarrow> 'a option" where
  "index_at xs i = (if 0 \<le> i \<and> i < int (length xs) then Some (xs ! nat i) else None)"

text \<open>\<^verbatim>\<open>xs.slice(0, e)\<close>: a negative end counts from the end of the array.\<close>

definition slice0 :: "'a list \<Rightarrow> int \<Rightarrow> 'a list" where
  "slice0 xs e = (if e < 0 then take (nat (int (length xs) + e)) xs else take (nat e) xs)"

record Selection =
  sel_start :: int
  sel_end :: int

record TextEditor =
  content :: string
  cursorPosition :: int
  selection :: Selection
  fontName :: string
  fontSize :: real

definition TextEditor_new :: TextEditor where
  "TextEditor_new =
     \<lparr>content = [], cursorPosition = 0, selection = \<lparr>sel_start = 0, sel_end = 0\<rparr>,
      fontName = ''Arial'', fontSize = 12\<rparr>"

definition TextEditor_write :: "string \<Rightarrow> TextEditor \<Rightarrow> TextEditor" where
  "TextEditor_write text e =
     (let before = substring (content e) 0 (cursorPosition e);
          after = substring (content e) (cursorPosition e) (int (length (content e)));
          pos = cursorPosition e + int (length text)
      in e\<lparr>content := before @ text @ after, cursorPosition := pos,
            selection := \<lparr>sel_start = pos, sel_end = pos\<rparr>\<rparr>)"

definition TextEditor_moveCursor :: "int \<Rightarrow> TextEditor \<Rightarrow> TextEditor" where
  "TextEditor_moveCursor position e =
     (if position \<ge> 0 \<and> position \<le> int (length (content e))
      then e\<lparr>cursorPosition := position,
             selection := \<lparr>sel_start = position, sel_end = position\<rparr>\<rparr>
      else e)"

definition TextEditor_changeFont :: "string \<Rightarrow> real \<Rightarrow> TextEditor \<Rightarrow> TextEditor" where
  "TextEditor_changeFont name sz e = e\<lparr>fontName := name, fontSize := sz\<rparr>"

text \<open>
  The memento: the five saved fields and the creation time. The constructor reads the
  clock (\<^verbatim>\<open>new Date()\<close>), which the model takes as the argument \<open>now\<close>.
\<close>

record TextEditorMemento =
  m_content :: string
  m_cursorPosition :: int
  m_selection :: Selection
  m_fontName :: string
  m_fontSize :: real
  m_timestamp :: nat

definition TextEditorMemento_new ::
  "nat \<Rightarrow> string \<Rightarrow> int \<Rightarrow> Selection \<Rightarrow> string \<Rightarrow> real \<Rightarrow> TextEditorMemento" where
  "TextEditorMemento_new now c p sel fname fsize =
     \<lparr>m_content = c, m_cursorPosition = p, m_selection = sel, m_fontName = fname,
      m_fontSize = fsize, m_timestamp = now\<rparr>"

text \<open>\<^verbatim>\<open>getState()\<close> returns the five saved fields as a fresh object.\<close>

definition TextEditorMemento_getState :: "TextEditorMemento \<Rightarrow> TextEditor" where
  "TextEditorMemento_getState m =
     \<lparr>content = m_content m, cursorPosition = m_cursorPosition m,
      selection = m_selection m, fontName = m_fontName m, fontSize = m_fontSize m\<rparr>"

text \<open>
  \<^verbatim>\<open>getDescription()\<close> formats the time with the locale's \<^verbatim>\<open>toLocaleTimeString\<close>, a
  parameter of the model.
\<close>

definition TextEditorMemento_getDescription ::
  "(nat \<Rightarrow> string) \<Rightarrow> TextEditorMemento \<Rightarrow> string" where
  "TextEditorMemento_getDescription toLocaleTimeString m =
     toLocaleTimeString (m_timestamp m) @ '' - '' @ substring (m_content m) 0 15 @
     (if length (m_content m) > 15 then ''...'' else [])"

definition TextEditor_save :: "nat \<Rightarrow> TextEditor \<Rightarrow> TextEditorMemento" where
  "TextEditor_save now e =
     TextEditorMemento_new now (content e) (cursorPosition e) (selection e) (fontName e)
       (fontSize e)"

text \<open>
  \<^verbatim>\<open>restore(memento)\<close>: an argument that is not a \<^verbatim>\<open>TextEditorMemento\<close> (such as the
  \<^verbatim>\<open>null\<close> the history returns), here \<open>None\<close>, is rejected and nothing changes.
\<close>

definition TextEditor_restore :: "TextEditorMemento option \<Rightarrow> TextEditor \<Rightarrow> TextEditor" where
  "TextEditor_restore memento e =
     (case memento of
        None \<Rightarrow> e
      | Some m \<Rightarrow>
          (let state = TextEditorMemento_getState m
           in e\<lparr>content := content state, cursorPosition := cursorPosition state,
                 selection := selection state, fontName := fontName state,
                 fontSize := fontSize state\<rparr>))"

text \<open>
  The caretaker. It is polymorphic in the memento: it stores and returns mementos and
  has no access to their fields.
\<close>

record 'm EditorHistory =
  states :: "'m list"
  currentStateIndex :: int

definition EditorHistory_new :: "'m EditorHistory" where
  "EditorHistory_new = \<lparr>states = [], currentStateIndex = -1\<rparr>"

definition EditorHistory_push :: "'m \<Rightarrow> 'm EditorHistory \<Rightarrow> 'm EditorHistory" where
  "EditorHistory_push memento h =
     (let sts = (if currentStateIndex h < int (length (states h)) - 1
                 then slice0 (states h) (currentStateIndex h + 1) else states h);
          sts' = sts @ [memento]
      in \<lparr>states = sts', currentStateIndex = int (length sts') - 1\<rparr>)"

definition EditorHistory_undo :: "'m EditorHistory \<Rightarrow> 'm option \<times> 'm EditorHistory" where
  "EditorHistory_undo h =
     (if currentStateIndex h > 0
      then (let h' = h\<lparr>currentStateIndex := currentStateIndex h - 1\<rparr>
            in (index_at (states h') (currentStateIndex h'), h'))
      else (None, h))"

definition EditorHistory_redo :: "'m EditorHistory \<Rightarrow> 'm option \<times> 'm EditorHistory" where
  "EditorHistory_redo h =
     (if currentStateIndex h < int (length (states h)) - 1
      then (let h' = h\<lparr>currentStateIndex := currentStateIndex h + 1\<rparr>
            in (index_at (states h') (currentStateIndex h'), h'))
      else (None, h))"

text \<open>
  \<^verbatim>\<open>goToState(index)\<close> contains no \<^verbatim>\<open>throw\<close>: its result is written as a sum only
  so that this can be said; both branches return.
\<close>

definition EditorHistory_goToState ::
  "int \<Rightarrow> 'm EditorHistory \<Rightarrow> error + ('m option \<times> 'm EditorHistory)" where
  "EditorHistory_goToState index h =
     (if index \<ge> 0 \<and> index < int (length (states h))
      then Inr (index_at (states h) index, h\<lparr>currentStateIndex := index\<rparr>)
      else Inr (None, h))"

definition EditorHistory_clear :: "'m EditorHistory \<Rightarrow> 'm EditorHistory" where
  "EditorHistory_clear h = \<lparr>states = [], currentStateIndex = -1\<rparr>"

text \<open>
  The client's undo and redo steps: the returned memento is restored into the editor
  only when it is not \<^verbatim>\<open>null\<close>.
\<close>

definition client_undo ::
  "TextEditorMemento EditorHistory \<times> TextEditor \<Rightarrow> TextEditorMemento EditorHistory \<times> TextEditor"
  where
  "client_undo he =
     (case EditorHistory_undo (fst he) of
        (previousState, h') \<Rightarrow>
          (h', case previousState of None \<Rightarrow> snd he
               | Some m \<Rightarrow> TextEditor_restore (Some m) (snd he)))"

definition client_redo ::
  "TextEditorMemento EditorHistory \<times> TextEditor \<Rightarrow> TextEditorMemento EditorHistory \<times> TextEditor"
  where
  "client_redo he =
     (case EditorHistory_redo (fst he) of
        (nextState, h') \<Rightarrow>
          (h', case nextState of None \<Rightarrow> snd he
               | Some m \<Rightarrow> TextEditor_restore (Some m) (snd he)))"

text \<open>
  Saving a list of editor states, each at its own time, and pushing the mementos in
  that order onto a history.
\<close>

definition push_all :: "'m list \<Rightarrow> 'm EditorHistory \<Rightarrow> 'm EditorHistory" where
  "push_all ms h = foldl (\<lambda>h m. EditorHistory_push m h) h ms"

definition save_all :: "(nat \<times> TextEditor) list \<Rightarrow> TextEditorMemento list" where
  "save_all snaps = map (\<lambda>(now, e). TextEditor_save now e) snaps"

text \<open>Three snapshots of an editing session, used to instantiate the laws below.\<close>

definition example_snaps :: "(nat \<times> TextEditor) list" where
  "example_snaps =
     [(1000, TextEditor_new),
      (2000, TextEditor_write ''Hi'' TextEditor_new),
      (3000, TextEditor_changeFont ''Times'' 14 (TextEditor_write ''Hi'' TextEditor_new))]"

section \<open>Composite: the file-system tree\<close>

text \<open>
  A \<^verbatim>\<open>File\<close> has a name, a size in bytes and the path of its parent; a \<^verbatim>\<open>Directory\<close>
  has a name, its children in insertion order and the path of its parent. The tree is
  finite and acyclic.
\<close>

datatype FileSystemComponent =
    File string jsnum string
  | Directory string "FileSystemComponent list" string

fun getName :: "FileSystemComponent \<Rightarrow> string" where
  "getName (File name sz parentPath) = name"
| "getName (Directory name children parentPath) = name"

fun getType :: "FileSystemComponent \<Rightarrow> string" where
  "getType (File name sz parentPath) = ''file''"
| "getType (Directory name children parentPath) = ''directory''"

fun isLeaf :: "FileSystemComponent \<Rightarrow> bool" where
  "isLeaf (File name sz parentPath) = True"
| "isLeaf (Directory name children parentPath) = False"

text \<open>
  \<^verbatim>\<open>Directory.getSize\<close> is a left-to-right \<^verbatim>\<open>reduce\<close> over the children, from 0, with
  the addition of JavaScript numbers.
\<close>

fun getSize :: "FileSystemComponent \<Rightarrow> jsnum" where
  "getSize (File name sz parentPath) = sz"
| "getSize (Directory name children parentPath) =
     foldl (\<lambda>total child. js_add total (getSize child)) (Number 0) children"

text \<open>\<^verbatim>\<open>String.prototype.endsWith\<close>.\<close>

definition endsWith :: "string \<Rightarrow> string \<Rightarrow> bool" where
  "endsWith s ext = (length ext \<le> length s \<and> drop (length s - length ext) s = ext)"

text \<open>
  \<^verbatim>\<open>Directory.find(predicate)\<close>: the directory itself is tested first, then the
  children in order; a leaf child is tested, a composite child is searched by its own
  \<^verbatim>\<open>find\<close>, whose results are appended. Only \<^verbatim>\<open>Directory\<close> has the method: calling it
  on a \<^verbatim>\<open>File\<close> is a type error, which the \<^verbatim>\<open>isLeaf\<close> test keeps the loop away from.
  \<open>find_children\<close> is the \<^verbatim>\<open>forEach\<close> loop, with the \<^verbatim>\<open>results\<close> array as its state.
\<close>

fun Directory_find ::
  "(FileSystemComponent \<Rightarrow> bool) \<Rightarrow> FileSystemComponent \<Rightarrow> error + FileSystemComponent list"
and find_children ::
  "(FileSystemComponent \<Rightarrow> bool) \<Rightarrow> FileSystemComponent list \<Rightarrow> FileSystemComponent list \<Rightarrow>
   error + FileSystemComponent list"
where
  "Directory_find predicate (File name sz parentPath) =
     Inl (TypeError ''find is not a function'')"
| "Directory_find predicate (Directory name children parentPath) =
     find_children predicate children
       (if predicate (Directory name children parentPath)
        then [Directory name children parentPath] else [])"
| "find_children predicate [] results = Inr results"
| "find_children predicate (child # rest) results =
     (if isLeaf child
      then find_children predicate rest (if predicate child then results @ [child] else results)
      else (case Directory_find predicate child of
              Inl e \<Rightarrow> Inl e
            | Inr found \<Rightarrow> find_children predicate rest (results @ found)))"

definition findByExtension ::
  "string \<Rightarrow> FileSystemComponent \<Rightarrow> error + FileSystemComponent list" where
  "findByExtension extension d =
     Directory_find (\<lambda>component. getType component = ''file'' \<and>
                                  endsWith (getName component) extension) d"

text \<open>
  The methods of the abstract class \<^verbatim>\<open>FileSystemComponent\<close> itself, which \<^verbatim>\<open>File\<close> and
  \<^verbatim>\<open>Directory\<close> override: each throws. \<^verbatim>\<open>File\<close> inherits \<^verbatim>\<open>add\<close>, \<^verbatim>\<open>remove\<close> and
  \<^verbatim>\<open>getChild\<close> as they are.
\<close>

definition FileSystemComponent_getName :: "error + string" where
  "FileSystemComponent_getName =
     Inl (Error ''getName method must be implemented by concrete classes'')"

definition FileSystemComponent_getSize :: "error + jsnum" where
  "FileSystemComponent_getSize =
     Inl (Error ''getSize method must be implemented by concrete classes'')"

definition FileSystemComponent_getType :: "error + string" where
  "FileSystemComponent_getType =
     Inl (Error ''getType method must be implemented by concrete classes'')"

definition FileSystemComponent_print :: "string \<Rightarrow> error + unit" where
  "FileSystemComponent_print indent =
     Inl (Error ''print method must be implemented by concrete classes'')"

definition FileSystemComponent_getPath :: "error + string" where
  "FileSystemComponent_getPath =
     Inl (Error ''getPath method must be implemented by concrete classes'')"

definition FileSystemComponent_add :: "FileSystemComponent \<Rightarrow> error + FileSystemComponent" where
  "FileSystemComponent_add component = Inl (Error ''Operation not supported'')"

definition FileSystemComponent_remove :: "FileSystemComponent \<Rightarrow> error + unit" where
  "FileSystemComponent_remove component = Inl (Error ''Operation not supported'')"

definition FileSystemComponent_getChild :: "string \<Rightarrow> error + FileSystemComponent option" where
  "FileSystemComponent_getChild name = Inl (Error ''Operation not supported'')"

definition FileSystemComponent_isLeaf :: "error + bool" where
  "FileSystemComponent_isLeaf =
     Inl (Error ''isLeaf method must be implemented by concrete classes'')"

text \<open>
  The statement side: every node of a tree in pre-order; the sizes of its files, at any
  depth, in the same order; and the test "is a file whose own name ends with the
  suffix".
\<close>

fun all_nodes :: "FileSystemComponent \<Rightarrow> FileSystemComponent list" where
  "all_nodes (File name sz parentPath) = [File name sz parentPath]"
| "all_nodes (Directory name children parentPath) =
     Directory name children parentPath # concat (map all_nodes children)"

fun file_sizes :: "FileSystemComponent \<Rightarrow> jsnum list" where
  "file_sizes (File name sz parentPath) = [sz]"
| "file_sizes (Directory name children parentPath) = concat (map file_sizes children)"

fun is_file_named :: "string \<Rightarrow> FileSystemComponent \<Rightarrow> bool" where
  "is_file_named ext (File name sz parentPath) = endsWith name ext"
| "is_file_named ext (Directory name children parentPath) = False"

text \<open>A tree of whole byte counts, and a directory whose sizes leave the exact range.\<close>

definition example_tree :: FileSystemComponent where
  "example_tree =
     Directory ''root''
       [File ''a.txt'' (Number 10) ''root'',
        Directory ''src''
          [File ''b.js'' (Number 20) ''root/src'',
           File ''c.txt'' (Number 5) ''root/src'',
           Directory ''deep'' [File ''d.txt'' (Number 7) ''root/src/deep''] ''root/src'']
          ''root'',
        Directory ''x.txt'' [] ''root'']
       []"

definition big_tree :: FileSystemComponent where
  "big_tree =
     Directory ''big''
       [File ''disk.img'' (Number (2 ^ 53)) ''big'', File ''one.bin'' (Number 1) ''big''] []"

section \<open>Observer: the weather station\<close>

text \<open>
  Observers are objects compared by identity: the station holds their references, and
  the objects themselves live in a store from references to observer states.
\<close>

type_synonym ref = nat

record WeatherStation =
  observers :: "ref list"
  temperature :: real
  humidity :: real
  pressure :: real

definition WeatherStation_new :: WeatherStation where
  "WeatherStation_new = \<lparr>observers = [], temperature = 0, humidity = 0, pressure = 0\<rparr>"

text \<open>\<^verbatim>\<open>Array.prototype.indexOf\<close>: the first index of the element, or -1.\<close>

fun indexOf :: "'a list \<Rightarrow> 'a \<Rightarrow> int" where
  "indexOf [] x = -1"
| "indexOf (y # ys) x =
     (if y = x then 0 else (let i = indexOf ys x in if i = -1 then -1 else i + 1))"

text \<open>\<^verbatim>\<open>xs.splice(i, 1)\<close> for an index \<open>i\<close> inside the array.\<close>

definition splice1 :: "'a list \<Rightarrow> int \<Rightarrow> 'a list" where
  "splice1 xs i = take (nat i) xs @ drop (nat i + 1) xs"

definition WeatherStation_attach :: "ref \<Rightarrow> WeatherStation \<Rightarrow> WeatherStation" where
  "WeatherStation_attach observer s =
     (let isExist = observer \<in> set (observers s)
      in if isExist then s else s\<lparr>observers := observers s @ [observer]\<rparr>)"

definition WeatherStation_detach :: "ref \<Rightarrow> WeatherStation \<Rightarrow> WeatherStation" where
  "WeatherStation_detach observer s =
     (let observerIndex = indexOf (observers s) observer
      in if observerIndex = -1 then s
         else s\<lparr>observers := splice1 (observers s) observerIndex\<rparr>)"

text \<open>
  \<^verbatim>\<open>notify()\<close> calls \<^verbatim>\<open>observer.update(this)\<close> on every element of the list, in
  order. The observer's \<^verbatim>\<open>update\<close> method is a parameter: it reads the station and
  changes the observer it is called on.
\<close>

definition WeatherStation_notify ::
  "(WeatherStation \<Rightarrow> 'o \<Rightarrow> 'o) \<Rightarrow> WeatherStation \<Rightarrow> (ref \<Rightarrow> 'o) \<Rightarrow> (ref \<Rightarrow> 'o)" where
  "WeatherStation_notify update s store =
     foldl (\<lambda>st observer. st(observer := update s (st observer))) store (observers s)"

definition WeatherStation_setMeasurements ::
  "(WeatherStation \<Rightarrow> 'o \<Rightarrow> 'o) \<Rightarrow> real \<Rightarrow> real \<Rightarrow> real \<Rightarrow>
   WeatherStation \<times> (ref \<Rightarrow> 'o) \<Rightarrow> WeatherStation \<times> (ref \<Rightarrow> 'o)" where
  "WeatherStation_setMeasurements update t h p sst =
     (let s' = (fst sst)\<lparr>temperature := t, humidity := h, pressure := p\<rparr>
      in (s', WeatherStation_notify update s' (snd sst)))"

text \<open>Sequences of calls on a station and the store of its observers.\<close>

datatype station_op = Attach ref | Detach ref | SetMeasurements real real real

fun station_step ::
  "(WeatherStation \<Rightarrow> 'o \<Rightarrow> 'o) \<Rightarrow> WeatherStation \<times> (ref \<Rightarrow> 'o) \<Rightarrow> station_op \<Rightarrow>
   WeatherStation \<times> (ref \<Rightarrow> 'o)" where
  "station_step update sst (Attach observer) =
     (WeatherStation_attach observer (fst sst), snd sst)"
| "station_step update sst (Detach observer) =
     (WeatherStation_detach observer (fst sst), snd sst)"
| "station_step update sst (SetMeasurements t h p) =
     WeatherStation_setMeasurements update t h p sst"

definition station_run ::
  "(WeatherStation \<Rightarrow> 'o \<Rightarrow> 'o) \<Rightarrow> station_op list \<Rightarrow> WeatherStation \<times> (ref \<Rightarrow> 'o) \<Rightarrow>
   WeatherStation \<times> (ref \<Rightarrow> 'o)" where
  "station_run update ops sst = foldl (station_step update) sst ops"

text \<open>
  The \<^verbatim>\<open>StatisticsDisplay\<close> observer, reduced to its list of temperatures: every update
  appends the station's temperature.
\<close>

definition StatisticsDisplay_update :: "WeatherStation \<Rightarrow> real list \<Rightarrow> real list" where
  "StatisticsDisplay_update subject temperatures = temperatures @ [temperature subject]"

text \<open>
  A run used to instantiate the observer laws: observer 1 is attached twice, observer 2
  once, and one measurement is published to statistics displays.
\<close>

definition example_station :: "WeatherStation \<times> (ref \<Rightarrow> real list)" where
  "example_station =
     station_run StatisticsDisplay_update
       [Attach 1, Attach 2, Attach 1, SetMeasurements 20 50 1000]
       (WeatherStation_new, \<lambda>r. [])"

section \<open>Singleton\<close>

text \<open>
  The class state: the static field \<^verbatim>\<open>Singleton.instance\<close> (\<open>None\<close> for \<^verbatim>\<open>undefined\<close>)
  and the number of objects allocated so far, which gives every \<^verbatim>\<open>new\<close> object a
  fresh reference.
\<close>

record SingletonClass =
  static_instance :: "ref option"
  allocated :: nat

definition SingletonClass_initial :: SingletonClass where
  "SingletonClass_initial = \<lparr>static_instance = None, allocated = 0\<rparr>"

definition already_exists :: error where
  "already_exists = Error ''Singleton instance already exists. Use getInstance() instead.''"

text \<open>\<^verbatim>\<open>new Singleton()\<close>: the constructor throws when the static field is set.\<close>

definition Singleton_constructor :: "SingletonClass \<Rightarrow> error + (ref \<times> SingletonClass)" where
  "Singleton_constructor c =
     (case static_instance c of
        Some existing \<Rightarrow> Inl already_exists
      | None \<Rightarrow> Inr (allocated c, c\<lparr>allocated := allocated c + 1\<rparr>))"

definition Singleton_getInstance :: "SingletonClass \<Rightarrow> error + (ref \<times> SingletonClass)" where
  "Singleton_getInstance c =
     (case static_instance c of
        None \<Rightarrow>
          (case Singleton_constructor c of
             Inl e \<Rightarrow> Inl e
           | Inr (obj, c') \<Rightarrow> Inr (obj, c'\<lparr>static_instance := Some obj\<rparr>))
      | Some existing \<Rightarrow> Inr (existing, c))"

text \<open>
  Sequences of calls by a client that catches the constructor's error: each call yields
  its result, and a call that throws leaves the class state as it was.
\<close>

datatype singleton_call = GetInstance | New

fun Singleton_call :: "SingletonClass \<Rightarrow> singleton_call \<Rightarrow> (error + ref) \<times> SingletonClass" where
  "Singleton_call c GetInstance =
     (case Singleton_getInstance c of Inl e \<Rightarrow> (Inl e, c) | Inr (obj, c') \<Rightarrow> (Inr obj, c'))"
| "Singleton_call c New =
     (case Singleton_constructor c of Inl e \<Rightarrow> (Inl e, c) | Inr (obj, c') \<Rightarrow> (Inr obj, c'))"

fun Singleton_calls ::
  "SingletonClass \<Rightarrow> singleton_call list \<Rightarrow> (error + ref) list \<times> SingletonClass" where
  "Singleton_calls c [] = ([], c)"
| "Singleton_calls c (call # calls) =
     (case Singleton_call c call of
        (r, c') \<Rightarrow> (case Singleton_calls c' calls of (rs, c'') \<Rightarrow> (r # rs, c'')))"

fun expected_after_first :: "ref \<Rightarrow> singleton_call \<Rightarrow> error + ref" where
  "expected_after_first obj GetInstance = Inr obj"
| "expected_after_first obj New = Inl already_exists"

section \<open>Proxy: the caching database proxy\<close>

text \<open>
  JavaScript values, as far as \<^verbatim>\<open>saveData\<close> looks at its argument: truthiness and
  \<^verbatim>\<open>typeof\<close>.
\<close>

datatype jsvalue =
    JUndefined
  | JNull
  | JBool bool
  | JNumber real
  | JString string
  | JObject "(string \<times> jsvalue) list"

fun truthy :: "jsvalue \<Rightarrow> bool" where
  "truthy JUndefined = False"
| "truthy JNull = False"
| "truthy (JBool b) = b"
| "truthy (JNumber n) = (n \<noteq> 0)"
| "truthy (JString s) = (s \<noteq> [])"
| "truthy (JObject props) = True"

fun typeof :: "jsvalue \<Rightarrow> string" where
  "typeof JUndefined = ''undefined''"
| "typeof JNull = ''object''"
| "typeof (JBool b) = ''boolean''"
| "typeof (JNumber n) = ''number''"
| "typeof (JString s) = ''string''"
| "typeof (JObject props) = ''object''"

text \<open>
  The real subject. Calls are awaited one at a time, so each asynchronous method is a
  state transformer; the simulated delays are dropped and every \<^verbatim>\<open>new Date()\<close> of a
  call reads the time \<open>now\<close> given to the call.
\<close>

record QueryResult =
  query :: string
  timestamp :: nat
  results :: "(nat \<times> string) list"

record DatabaseSource =
  db_connectionString :: string
  isConnected :: bool
  connectionTime :: "nat option"

definition DatabaseSource_new :: "string \<Rightarrow> DatabaseSource" where
  "DatabaseSource_new cs =
     \<lparr>db_connectionString = cs, isConnected = False, connectionTime = None\<rparr>"

definition DatabaseSource_connect :: "nat \<Rightarrow> DatabaseSource \<Rightarrow> DatabaseSource" where
  "DatabaseSource_connect now db = db\<lparr>isConnected := True, connectionTime := Some now\<rparr>"

definition DatabaseSource_getData ::
  "nat \<Rightarrow> string \<Rightarrow> DatabaseSource \<Rightarrow> QueryResult \<times> DatabaseSource" where
  "DatabaseSource_getData now q db =
     (let db' = (if \<not> isConnected db then DatabaseSource_connect now db else db);
          result = \<lparr>query = q, timestamp = now,
                    results = [(1, ''Sample data 1''), (2, ''Sample data 2''),
                               (3, ''Sample data 3'')]\<rparr>
      in (result, db'))"

definition DatabaseSource_saveData ::
  "nat \<Rightarrow> jsvalue \<Rightarrow> DatabaseSource \<Rightarrow> bool \<times> DatabaseSource" where
  "DatabaseSource_saveData now data db =
     (let db' = (if \<not> isConnected db then DatabaseSource_connect now db else db)
      in (True, db'))"

text \<open>
  The proxy. The cache is a JavaScript \<^verbatim>\<open>Map\<close> from query strings to results, kept as
  an association list in insertion order.
\<close>

record DatabaseProxy =
  connectionString :: string
  accessLevel :: string
  realDatabase :: "DatabaseSource option"
  cache :: "(string \<times> QueryResult) list"
  cacheHits :: nat
  cacheMisses :: nat
  lastAccess :: "nat option"

definition DatabaseProxy_new :: "string \<Rightarrow> string \<Rightarrow> DatabaseProxy" where
  "DatabaseProxy_new cs level =
     \<lparr>connectionString = cs, accessLevel = level, realDatabase = None, cache = [],
      cacheHits = 0, cacheMisses = 0, lastAccess = None\<rparr>"

text \<open>\<^verbatim>\<open>Map.prototype.set\<close>: an existing key keeps its position, a new key goes last.\<close>

fun Map_set :: "'k \<Rightarrow> 'v \<Rightarrow> ('k \<times> 'v) list \<Rightarrow> ('k \<times> 'v) list" where
  "Map_set k v [] = [(k, v)]"
| "Map_set k v ((k', v') # kvs) =
     (if k' = k then (k, v) # kvs else (k', v') # Map_set k v kvs)"

definition getRealDatabase :: "DatabaseProxy \<Rightarrow> DatabaseSource \<times> DatabaseProxy" where
  "getRealDatabase p =
     (case realDatabase p of
        None \<Rightarrow>
          (let db = DatabaseSource_new (connectionString p)
           in (db, p\<lparr>realDatabase := Some db\<rparr>))
      | Some db \<Rightarrow> (db, p))"

definition checkAccess :: "string \<Rightarrow> nat \<Rightarrow> DatabaseProxy \<Rightarrow> bool \<times> DatabaseProxy" where
  "checkAccess operation now p =
     (let p' = p\<lparr>lastAccess := Some now\<rparr>
      in if operation = ''write'' \<and> accessLevel p' \<noteq> ''write'' then (False, p')
         else (True, p'))"

definition read_denied :: error where
  "read_denied = Error ''Access denied: Read operation not allowed.''"

definition write_denied :: error where
  "write_denied = Error ''Access denied: Write operation not allowed with current access level.''"

definition invalid_data :: error where
  "invalid_data = Error ''Invalid data format. Object expected.''"

text \<open>
  A method that throws keeps the changes it made before the throw, so each method
  returns its outcome together with the proxy after the call.
\<close>

definition DatabaseProxy_getData ::
  "nat \<Rightarrow> string \<Rightarrow> DatabaseProxy \<Rightarrow> (error + QueryResult) \<times> DatabaseProxy" where
  "DatabaseProxy_getData now q p =
     (case checkAccess ''read'' now p of
        (False, p1) \<Rightarrow> (Inl read_denied, p1)
      | (True, p1) \<Rightarrow>
          (case map_of (cache p1) q of
             Some cached \<Rightarrow> (Inr cached, p1\<lparr>cacheHits := cacheHits p1 + 1\<rparr>)
           | None \<Rightarrow>
               (let p2 = p1\<lparr>cacheMisses := cacheMisses p1 + 1\<rparr>;
                    (database, p3) = getRealDatabase p2;
                    (result, database') = DatabaseSource_getData now q database;
                    p4 = p3\<lparr>realDatabase := Some database'\<rparr>
                in (Inr result, p4\<lparr>cache := Map_set q result (cache p4)\<rparr>))))"

definition DatabaseProxy_saveData ::
  "nat \<Rightarrow> jsvalue \<Rightarrow> DatabaseProxy \<Rightarrow> (error + bool) \<times> DatabaseProxy" where
  "DatabaseProxy_saveData now data p =
     (case checkAccess ''write'' now p of
        (False, p1) \<Rightarrow> (Inl write_denied, p1)
      | (True, p1) \<Rightarrow>
          (if \<not> truthy data \<or> typeof data \<noteq> ''object'' then (Inl invalid_data, p1)
           else
             (let (database, p2) = getRealDatabase p1;
                  (result, database') = DatabaseSource_saveData now data database;
                  p3 = p2\<lparr>realDatabase := Some database'\<rparr>
              in (Inr result, p3\<lparr>cache := []\<rparr>))))"

definition clearCache :: "DatabaseProxy \<Rightarrow> DatabaseProxy" where
  "clearCache p = p\<lparr>cache := []\<rparr>"

text \<open>A write-enabled proxy with one cached query, used to instantiate the cache law.\<close>

definition example_proxy :: DatabaseProxy where
  "example_proxy =
     snd (DatabaseProxy_getData 100 ''SELECT * FROM users''
            (DatabaseProxy_new ''db://example.com/mydb'' ''write''))"

text \<open>A read-only proxy with the same cached query.\<close>

definition example_read_proxy :: DatabaseProxy where
  "example_read_proxy =
     snd (DatabaseProxy_getData 100 ''SELECT * FROM users''
            (DatabaseProxy_new ''db://example.com/mydb'' ''read''))"

definition example_record :: jsvalue where
  "example_record = JObject [(''name'', JString ''New record''), (''value'', JNumber 42)]"

section \<open>Bridge: devices behind a remote control\<close>

text \<open>
  The fields every concrete device's constructor sets, then the three devices. A remote
  control only forwards to these methods, so a sequence of remote-control commands is a
  sequence of device calls.
\<close>

record DeviceImplementation =
  brand :: string
  isOn :: bool
  volume :: jsnum

record TV = DeviceImplementation +
  tv_channel :: jsnum
  maxChannels :: jsnum

definition TV_new :: "string \<Rightarrow> TV" where
  "TV_new b =
     \<lparr>brand = b, isOn = False, volume = Number 30, tv_channel = Number 1,
      maxChannels = Number 100\<rparr>"

definition TV_turnOn :: "TV \<Rightarrow> TV" where
  "TV_turnOn tv = tv\<lparr>isOn := True\<rparr>"

definition TV_turnOff :: "TV \<Rightarrow> TV" where
  "TV_turnOff tv = tv\<lparr>isOn := False\<rparr>"

definition TV_setVolume :: "jsnum \<Rightarrow> TV \<Rightarrow> TV" where
  "TV_setVolume percent tv =
     (if \<not> isOn tv then tv
      else tv\<lparr>volume := Math_max (Number 0) (Math_min (Number 100) percent)\<rparr>)"

definition TV_setChannel :: "jsnum \<Rightarrow> TV \<Rightarrow> TV" where
  "TV_setChannel ch tv =
     (if \<not> isOn tv then tv
      else if js_lt (Number 0) ch \<and> js_le ch (maxChannels tv) then tv\<lparr>tv_channel := ch\<rparr>
      else tv)"

record Radio = DeviceImplementation +
  radio_channel :: jsnum
  isFM :: bool

definition Radio_new :: "string \<Rightarrow> Radio" where
  "Radio_new b =
     \<lparr>brand = b, isOn = False, volume = Number 20, radio_channel = Number 87.5, isFM = True\<rparr>"

definition Radio_turnOn :: "Radio \<Rightarrow> Radio" where
  "Radio_turnOn r = r\<lparr>isOn := True\<rparr>"

definition Radio_turnOff :: "Radio \<Rightarrow> Radio" where
  "Radio_turnOff r = r\<lparr>isOn := False\<rparr>"

definition Radio_setVolume :: "jsnum \<Rightarrow> Radio \<Rightarrow> Radio" where
  "Radio_setVolume percent r =
     (if \<not> isOn r then r
      else r\<lparr>volume := Math_max (Number 0) (Math_min (Number 100) percent)\<rparr>)"

definition Radio_setChannel :: "jsnum \<Rightarrow> Radio \<Rightarrow> Radio" where
  "Radio_setChannel ch r =
     (if \<not> isOn r then r
      else if isFM r
      then (if js_le (Number 87.5) ch \<and> js_le ch (Number 108.0)
            then r\<lparr>radio_channel := ch\<rparr> else r)
      else (if js_le (Number 540) ch \<and> js_le ch (Number 1600)
            then r\<lparr>radio_channel := ch\<rparr> else r))"

definition Radio_toggleBand :: "Radio \<Rightarrow> Radio" where
  "Radio_toggleBand r =
     (if \<not> isOn r then r
      else (let r' = r\<lparr>isFM := \<not> isFM r\<rparr>
            in if isFM r' then r'\<lparr>radio_channel := Number 87.5\<rparr>
               else r'\<lparr>radio_channel := Number 1000\<rparr>))"

text \<open>
  The smart speaker selects an app instead of a channel. \<^verbatim>\<open>availableApps[appIndex]\<close>
  with an index that passes the range test but is not an integer reads \<^verbatim>\<open>undefined\<close>,
  which is the value \<open>None\<close> of \<open>currentApp\<close>.
\<close>

record SmartSpeaker = DeviceImplementation +
  currentApp :: "string option"
  availableApps :: "string list"

definition SmartSpeaker_new :: "string \<Rightarrow> SmartSpeaker" where
  "SmartSpeaker_new b =
     \<lparr>brand = b, isOn = False, volume = Number 40, currentApp = Some ''None'',
      availableApps = [''Music'', ''Podcast'', ''News'', ''Weather'', ''Home Control'']\<rparr>"

definition SmartSpeaker_turnOn :: "SmartSpeaker \<Rightarrow> SmartSpeaker" where
  "SmartSpeaker_turnOn sp = sp\<lparr>isOn := True\<rparr>"

definition SmartSpeaker_turnOff :: "SmartSpeaker \<Rightarrow> SmartSpeaker" where
  "SmartSpeaker_turnOff sp = sp\<lparr>isOn := False\<rparr>"

definition SmartSpeaker_setVolume :: "jsnum \<Rightarrow> SmartSpeaker \<Rightarrow> SmartSpeaker" where
  "SmartSpeaker_setVolume percent sp =
     (if \<not> isOn sp then sp
      else sp\<lparr>volume := Math_max (Number 0) (Math_min (Number 100) percent)\<rparr>)"

definition element_at :: "'a list \<Rightarrow> jsnum \<Rightarrow> 'a option" where
  "element_at xs i =
     (case i of
        Number q \<Rightarrow>
          if q = of_int \<lfloor>q\<rfloor> \<and> 0 \<le> q \<and> q < real (length xs) then Some (xs ! nat \<lfloor>q\<rfloor>)
          else None
      | _ \<Rightarrow> None)"

definition SmartSpeaker_setChannel :: "jsnum \<Rightarrow> SmartSpeaker \<Rightarrow> SmartSpeaker" where
  "SmartSpeaker_setChannel appIndex sp =
     (if \<not> isOn sp then sp
      else if js_le (Number 0) appIndex \<and>
              js_lt appIndex (Number (real (length (availableApps sp))))
      then sp\<lparr>currentApp := element_at (availableApps sp) appIndex\<rparr>
      else sp)"

text \<open>
  \<^verbatim>\<open>toLowerCase\<close> on the letters A to Z (code 65 to 90), which sets the bit of value
  32, and \<^verbatim>\<open>String.prototype.includes\<close>; the patterns searched for are lower-case
  ASCII.
\<close>

definition lower_char :: "char \<Rightarrow> char" where
  "lower_char c =
     (if 65 \<le> (of_char c :: nat) \<and> (of_char c :: nat) \<le> 90
      then (case c of Char b0 b1 b2 b3 b4 b5 b6 b7 \<Rightarrow> Char b0 b1 b2 b3 b4 True b6 b7)
      else c)"

definition toLowerCase :: "string \<Rightarrow> string" where
  "toLowerCase s = map lower_char s"

fun str_includes :: "string \<Rightarrow> string \<Rightarrow> bool" where
  "str_includes [] pat = (pat = [])"
| "str_includes (c # cs) pat = (take (length pat) (c # cs) = pat \<or> str_includes cs pat)"

definition SmartSpeaker_voiceCommand :: "string \<Rightarrow> SmartSpeaker \<Rightarrow> SmartSpeaker" where
  "SmartSpeaker_voiceCommand command sp =
     (if \<not> isOn sp then sp
      else if str_includes (toLowerCase command) ''play music'' then sp\<lparr>currentApp := Some ''Music''\<rparr>
      else if str_includes (toLowerCase command) ''weather'' then sp\<lparr>currentApp := Some ''Weather''\<rparr>
      else if str_includes (toLowerCase command) ''volume up''
      then SmartSpeaker_setVolume (js_add (volume sp) (Number 10)) sp
      else if str_includes (toLowerCase command) ''volume down''
      then SmartSpeaker_setVolume (js_sub (volume sp) (Number 10)) sp
      else sp)"

text \<open>Sequences of calls on each device.\<close>

datatype tv_call = TV_TurnOn | TV_TurnOff | TV_SetVolume jsnum | TV_SetChannel jsnum

fun TV_call :: "TV \<Rightarrow> tv_call \<Rightarrow> TV" where
  "TV_call tv TV_TurnOn = TV_turnOn tv"
| "TV_call tv TV_TurnOff = TV_turnOff tv"
| "TV_call tv (TV_SetVolume percent) = TV_setVolume percent tv"
| "TV_call tv (TV_SetChannel ch) = TV_setChannel ch tv"

datatype radio_call =
  Radio_TurnOn | Radio_TurnOff | Radio_SetVolume jsnum | Radio_SetChannel jsnum | Radio_ToggleBand

fun Radio_call :: "Radio \<Rightarrow> radio_call \<Rightarrow> Radio" where
  "Radio_call r Radio_TurnOn = Radio_turnOn r"
| "Radio_call r Radio_TurnOff = Radio_turnOff r"
| "Radio_call r (Radio_SetVolume percent) = Radio_setVolume percent r"
| "Radio_call r (Radio_SetChannel ch) = Radio_setChannel ch r"
| "Radio_call r Radio_ToggleBand = Radio_toggleBand r"

datatype speaker_call =
  Speaker_TurnOn | Speaker_TurnOff | Speaker_SetVolume jsnum | Speaker_SetChannel jsnum
| Speaker_VoiceCommand string

fun SmartSpeaker_call :: "SmartSpeaker \<Rightarrow> speaker_call \<Rightarrow> SmartSpeaker" where
  "SmartSpeaker_call sp Speaker_TurnOn = SmartSpeaker_turnOn sp"
| "SmartSpeaker_call sp Speaker_TurnOff = SmartSpeaker_turnOff sp"
| "SmartSpeaker_call sp (Speaker_SetVolume percent) = SmartSpeaker_setVolume percent sp"
| "SmartSpeaker_call sp (Speaker_SetChannel appIndex) = SmartSpeaker_setChannel appIndex sp"
| "SmartSpeaker_call sp (Speaker_VoiceCommand command) = SmartSpeaker_voiceCommand command sp"

text \<open>
  Dynamic dispatch through the \<^verbatim>\<open>DeviceImplementation\<close> interface: the base class's
  own methods throw, the concrete classes override them.
\<close>

datatype device =
    AbstractDevice
  | TVDevice TV
  | RadioDevice Radio
  | SpeakerDevice SmartSpeaker

fun Device_turnOn :: "device \<Rightarrow> error + device" where
  "Device_turnOn AbstractDevice =
     Inl (Error ''turnOn method must be implemented by concrete classes'')"
| "Device_turnOn (TVDevice tv) = Inr (TVDevice (TV_turnOn tv))"
| "Device_turnOn (RadioDevice r) = Inr (RadioDevice (Radio_turnOn r))"
| "Device_turnOn (SpeakerDevice sp) = Inr (SpeakerDevice (SmartSpeaker_turnOn sp))"

fun Device_turnOff :: "device \<Rightarrow> error + device" where
  "Device_turnOff AbstractDevice =
     Inl (Error ''turnOff method must be implemented by concrete classes'')"
| "Device_turnOff (TVDevice tv) = Inr (TVDevice (TV_turnOff tv))"
| "Device_turnOff (RadioDevice r) = Inr (RadioDevice (Radio_turnOff r))"
| "Device_turnOff (SpeakerDevice sp) = Inr (SpeakerDevice (SmartSpeaker_turnOff sp))"

fun Device_setVolume :: "jsnum \<Rightarrow> device \<Rightarrow> error + device" where
  "Device_setVolume percent AbstractDevice =
     Inl (Error ''setVolume method must be implemented by concrete classes'')"
| "Device_setVolume percent (TVDevice tv) = Inr (TVDevice (TV_setVolume percent tv))"
| "Device_setVolume percent (RadioDevice r) = Inr (RadioDevice (Radio_setVolume percent r))"
| "Device_setVolume percent (SpeakerDevice sp) =
     Inr (SpeakerDevice (SmartSpeaker_setVolume percent sp))"

fun Device_setChannel :: "jsnum \<Rightarrow> device \<Rightarrow> error + device" where
  "Device_setChannel ch AbstractDevice =
     Inl (Error ''setChannel method must be implemented by concrete classes'')"
| "Device_setChannel ch (TVDevice tv) = Inr (TVDevice (TV_setChannel ch tv))"
| "Device_setChannel ch (RadioDevice r) = Inr (RadioDevice (Radio_setChannel ch r))"
| "Device_setChannel ch (SpeakerDevice sp) = Inr (SpeakerDevice (SmartSpeaker_setChannel ch sp))"

text \<open>
  \<^verbatim>\<open>getStatus()\<close> returns an object with the device type, the brand, the power status,
  the volume and the fields of the kind of device.
\<close>

datatype device_status =
    TVStatus string string jsnum jsnum
  | RadioStatus string string jsnum jsnum string
  | SpeakerStatus string string jsnum "string option" "string list"

definition powerStatus :: "bool \<Rightarrow> string" where
  "powerStatus on = (if on then ''ON'' else ''OFF'')"

fun Device_getStatus :: "device \<Rightarrow> error + device_status" where
  "Device_getStatus AbstractDevice =
     Inl (Error ''getStatus method must be implemented by concrete classes'')"
| "Device_getStatus (TVDevice tv) =
     Inr (TVStatus (brand tv) (powerStatus (isOn tv)) (volume tv) (tv_channel tv))"
| "Device_getStatus (RadioDevice r) =
     Inr (RadioStatus (brand r) (powerStatus (isOn r)) (volume r) (radio_channel r)
            (if isFM r then ''FM'' else ''AM''))"
| "Device_getStatus (SpeakerDevice sp) =
     Inr (SpeakerStatus (brand sp) (powerStatus (isOn sp)) (volume sp) (currentApp sp)
            (availableApps sp))"

text \<open>
  The statement side of the volume law: a volume between 0 and 100, and a call that does
  not pass \<^verbatim>\<open>NaN\<close> as a volume.
\<close>

definition in_range :: "jsnum \<Rightarrow> bool" where
  "in_range v = (case v of Number q \<Rightarrow> 0 \<le> q \<and> q \<le> 100 | _ \<Rightarrow> False)"

fun tv_volume_given :: "tv_call \<Rightarrow> bool" where
  "tv_volume_given (TV_SetVolume percent) = (percent \<noteq> NaN)"
| "tv_volume_given c = True"

fun radio_volume_given :: "radio_call \<Rightarrow> bool" where
  "radio_volume_given (Radio_SetVolume percent) = (percent \<noteq> NaN)"
| "radio_volume_given c = True"

fun speaker_volume_given :: "speaker_call \<Rightarrow> bool" where
  "speaker_volume_given (Speaker_SetVolume percent) = (percent \<noteq> NaN)"
| "speaker_volume_given c = True"

section \<open>Numbers as strings\<close>

text \<open>
  A template literal prints a non-negative integer in decimal. The clock
  (\<^verbatim>\<open>Date.now()\<close>) and the values drawn from \<^verbatim>\<open>Math.random()\<close> are arguments of the
  calls that read them.
\<close>

definition digit_char :: "nat \<Rightarrow> char" where
  "digit_char d = ''0123456789'' ! (d mod 10)"

fun show_nat :: "nat \<Rightarrow> string" where
  "show_nat n = (if n < 10 then [digit_char n] else show_nat (n div 10) @ [digit_char (n mod 10)])"

declare show_nat.simps [simp del]

section \<open>Simple factory: users\<close>

text \<open>
  The \<^verbatim>\<open>data\<close> object of \<^verbatim>\<open>createUser\<close>: a property that is absent reads \<^verbatim>\<open>undefined\<close>,
  here \<open>None\<close>.
\<close>

record UserData =
  d_name :: "string option"
  d_email :: "string option"
  d_permissions :: "string list option"
  d_adminLevel :: "real option"
  d_subscription :: "string option"

datatype user =
    AdminUser "string option" "string option" nat "string list" real
  | CustomerUser "string option" "string option" nat string string
  | GuestUser "string option" "string option" nat string nat

text \<open>
  The constructors, with \<^verbatim>\<open>a || b\<close> taking \<open>b\<close> when \<open>a\<close> is \<^verbatim>\<open>undefined\<close>, 0 or the empty
  string. \<open>now\<close> is the clock and \<open>rnd\<close> is \<^verbatim>\<open>Math.floor(Math.random() * 10000)\<close>.
\<close>

definition AdminUser_new :: "nat \<Rightarrow> UserData \<Rightarrow> user" where
  "AdminUser_new now data =
     AdminUser (d_name data) (d_email data) now
       (case d_permissions data of None \<Rightarrow> [''read'', ''write'', ''delete''] | Some ps \<Rightarrow> ps)
       (case d_adminLevel data of None \<Rightarrow> 1 | Some l \<Rightarrow> if l = 0 then 1 else l)"

definition CustomerUser_new :: "nat \<Rightarrow> nat \<Rightarrow> UserData \<Rightarrow> user" where
  "CustomerUser_new now rnd data =
     CustomerUser (d_name data) (d_email data) now
       (case d_subscription data of None \<Rightarrow> ''free'' | Some s \<Rightarrow> if s = [] then ''free'' else s)
       (''CUST-'' @ show_nat rnd)"

definition GuestUser_new :: "nat \<Rightarrow> nat \<Rightarrow> UserData \<Rightarrow> user" where
  "GuestUser_new now rnd data =
     GuestUser (d_name data) (d_email data) now (''SESSION-'' @ show_nat rnd)
       (now + 24 * 60 * 60 * 1000)"

definition UserFactory_createUser :: "nat \<Rightarrow> nat \<Rightarrow> string \<Rightarrow> UserData \<Rightarrow> error + user" where
  "UserFactory_createUser now rnd type data =
     (if toLowerCase type = ''admin'' then Inr (AdminUser_new now data)
      else if toLowerCase type = ''customer'' then Inr (CustomerUser_new now rnd data)
      else if toLowerCase type = ''guest'' then Inr (GuestUser_new now rnd data)
      else Inl (Error (''User type '' @ type @ '' is not recognized.'')))"

section \<open>Adapter: the modern payment API\<close>

text \<open>
  The adapter keeps a \<^verbatim>\<open>Map\<close> from its own transaction ids to the API's intent ids.
  The API's answers carry fixed statuses; its random id suffixes are arguments.
\<close>

record ModernPaymentAdapter =
  intentMap :: "(string \<times> string) list"

definition ModernPaymentAdapter_new :: ModernPaymentAdapter where
  "ModernPaymentAdapter_new = \<lparr>intentMap = []\<rparr>"

record PaymentResult =
  pay_success :: bool
  pay_transactionId :: string
  pay_amount :: real
  pay_currency :: string
  pay_timestamp :: nat
  pay_processor :: string

record RefundResult =
  ref_success :: bool
  ref_refundId :: string
  ref_originalTransaction :: string
  ref_amount :: real
  ref_timestamp :: nat
  ref_processor :: string

record VerifyResult =
  ver_transactionId :: string
  ver_status :: string
  ver_timestamp :: int
  ver_processor :: string

text \<open>
  \<^verbatim>\<open>processPayment\<close>: the intent is created and confirmed (the API answers
  \<^verbatim>\<open>'succeeded'\<close>), a transaction id is generated from the clock and
  \<open>rnd = Math.floor(Math.random() * 1000)\<close> and mapped to the intent id \<^verbatim>\<open>'pi_'\<close> followed
  by the random suffix \<open>sfx\<close>. The card details only travel to the API, which logs
  them, and are left out.
\<close>

definition ModernPaymentAdapter_processPayment ::
  "nat \<Rightarrow> nat \<Rightarrow> string \<Rightarrow> real \<Rightarrow> string \<Rightarrow> ModernPaymentAdapter \<Rightarrow>
   PaymentResult \<times> ModernPaymentAdapter" where
  "ModernPaymentAdapter_processPayment now rnd sfx amount currency a =
     (let intent_id = ''pi_'' @ sfx;
          confirmation_status = ''succeeded'';
          transactionId = ''MODERN-'' @ show_nat now @ ''-'' @ show_nat rnd
      in (\<lparr>pay_success = (confirmation_status = ''succeeded''),
            pay_transactionId = transactionId, pay_amount = amount, pay_currency = currency,
            pay_timestamp = now, pay_processor = ''ModernPaymentAdapter''\<rparr>,
          a\<lparr>intentMap := Map_set transactionId intent_id (intentMap a)\<rparr>))"

text \<open>
  \<^verbatim>\<open>refundPayment\<close> and \<^verbatim>\<open>verifyPayment\<close> look the intent id up and throw when it is
  \<^verbatim>\<open>undefined\<close> (or the empty string, the other falsy value a string can be).
\<close>

definition ModernPaymentAdapter_refundPayment ::
  "nat \<Rightarrow> string \<Rightarrow> string \<Rightarrow> real \<Rightarrow> ModernPaymentAdapter \<Rightarrow> error + RefundResult" where
  "ModernPaymentAdapter_refundPayment now sfx transactionId amount a =
     (case map_of (intentMap a) transactionId of
        None \<Rightarrow> Inl (Error (''Unknown transaction ID: '' @ transactionId))
      | Some intentId \<Rightarrow>
          if intentId = [] then Inl (Error (''Unknown transaction ID: '' @ transactionId))
          else
            (let refund_id = ''re_'' @ sfx; refund_status = ''succeeded''
             in Inr \<lparr>ref_success = (refund_status = ''succeeded''), ref_refundId = refund_id,
                     ref_originalTransaction = transactionId, ref_amount = amount,
                     ref_timestamp = now, ref_processor = ''ModernPaymentAdapter''\<rparr>))"

definition statusMap :: "(string \<times> string) list" where
  "statusMap =
     [(''succeeded'', ''completed''), (''requires_payment_method'', ''failed''),
      (''requires_confirmation'', ''pending''), (''requires_action'', ''pending''),
      (''processing'', ''pending''), (''canceled'', ''failed'')]"

definition ModernPaymentAdapter_verifyPayment ::
  "nat \<Rightarrow> string \<Rightarrow> ModernPaymentAdapter \<Rightarrow> error + VerifyResult" where
  "ModernPaymentAdapter_verifyPayment now transactionId a =
     (case map_of (intentMap a) transactionId of
        None \<Rightarrow> Inl (Error (''Unknown transaction ID: '' @ transactionId))
      | Some intentId \<Rightarrow>
          if intentId = [] then Inl (Error (''Unknown transaction ID: '' @ transactionId))
          else
            (let intent_status = ''succeeded''
             in Inr \<lparr>ver_transactionId = transactionId,
                     ver_status = (case map_of statusMap intent_status of
                                     None \<Rightarrow> ''unknown'' | Some st \<Rightarrow> st),
                     ver_timestamp = int now - 3600000,
                     ver_processor = ''ModernPaymentAdapter''\<rparr>))"

text \<open>A powered-on speaker and an adapter after one payment, to instantiate the error laws.\<close>

definition example_speaker :: SmartSpeaker where
  "example_speaker = SmartSpeaker_turnOn (SmartSpeaker_new ''Amazon'')"

definition example_adapter :: ModernPaymentAdapter where
  "example_adapter =
     snd (ModernPaymentAdapter_processPayment 1700 7 ''k3j9x'' 200 ''GBP''
            ModernPaymentAdapter_new)"

definition no_data :: UserData where
  "no_data = \<lparr>d_name = None, d_email = None, d_permissions = None, d_adminLevel = None,
              d_subscription = None\<rparr>"

section \<open>Memento: game character, save points and the save manager\<close>

record Position =
  pos_x :: real
  pos_y :: real

record GameCharacter =
  gc_name :: string
  gc_level :: nat
  gc_health :: real
  gc_inventory :: "string list"
  gc_position :: Position
  gc_skills :: "string list"

definition GameCharacter_new :: "string \<Rightarrow> GameCharacter" where
  "GameCharacter_new nm =
     \<lparr>gc_name = nm, gc_level = 1, gc_health = 100, gc_inventory = [],
      gc_position = \<lparr>pos_x = 0, pos_y = 0\<rparr>, gc_skills = []\<rparr>"

definition GameCharacter_moveTo :: "real \<Rightarrow> real \<Rightarrow> GameCharacter \<Rightarrow> GameCharacter" where
  "GameCharacter_moveTo x y c = c\<lparr>gc_position := \<lparr>pos_x = x, pos_y = y\<rparr>\<rparr>"

definition GameCharacter_takeDamage :: "real \<Rightarrow> GameCharacter \<Rightarrow> GameCharacter" where
  "GameCharacter_takeDamage amount c = c\<lparr>gc_health := max 0 (gc_health c - amount)\<rparr>"

definition GameCharacter_addItem :: "string \<Rightarrow> GameCharacter \<Rightarrow> GameCharacter" where
  "GameCharacter_addItem item c = c\<lparr>gc_inventory := gc_inventory c @ [item]\<rparr>"

text \<open>
  The memento of a character: the six saved fields, the creation time and a label. The
  constructor and \<^verbatim>\<open>getState()\<close> copy the inventory, the position and the skills, so the
  memento shares no mutable object with the character.
\<close>

record GameCharacterMemento =
  gm_name :: string
  gm_level :: nat
  gm_health :: real
  gm_inventory :: "string list"
  gm_position :: Position
  gm_skills :: "string list"
  gm_timestamp :: nat
  gm_label :: string

definition GameCharacterMemento_new ::
  "nat \<Rightarrow> string \<Rightarrow> nat \<Rightarrow> real \<Rightarrow> string list \<Rightarrow> Position \<Rightarrow> string list \<Rightarrow>
   GameCharacterMemento" where
  "GameCharacterMemento_new now nm level health inventory position skills =
     \<lparr>gm_name = nm, gm_level = level, gm_health = health, gm_inventory = inventory,
      gm_position = position, gm_skills = skills, gm_timestamp = now,
      gm_label = ''Save - '' @ nm @ '' (Lvl '' @ show_nat level @ '')''\<rparr>"

definition GameCharacterMemento_getState :: "GameCharacterMemento \<Rightarrow> GameCharacter" where
  "GameCharacterMemento_getState m =
     \<lparr>gc_name = gm_name m, gc_level = gm_level m, gc_health = gm_health m,
      gc_inventory = gm_inventory m, gc_position = gm_position m, gc_skills = gm_skills m\<rparr>"

definition GameCharacterMemento_getDescription ::
  "(nat \<Rightarrow> string) \<Rightarrow> GameCharacterMemento \<Rightarrow> string" where
  "GameCharacterMemento_getDescription toLocaleString m =
     gm_label m @ '' - '' @ toLocaleString (gm_timestamp m)"

definition GameCharacterMemento_setLabel ::
  "string \<Rightarrow> GameCharacterMemento \<Rightarrow> GameCharacterMemento" where
  "GameCharacterMemento_setLabel label m = m\<lparr>gm_label := label\<rparr>"

definition GameCharacter_save :: "nat \<Rightarrow> GameCharacter \<Rightarrow> GameCharacterMemento" where
  "GameCharacter_save now c =
     GameCharacterMemento_new now (gc_name c) (gc_level c) (gc_health c) (gc_inventory c)
       (gc_position c) (gc_skills c)"

definition GameCharacter_restore :: "GameCharacterMemento \<Rightarrow> GameCharacter \<Rightarrow> GameCharacter" where
  "GameCharacter_restore memento c =
     (let state = GameCharacterMemento_getState memento
      in if gc_name state \<noteq> gc_name c then c
         else c\<lparr>gc_level := gc_level state, gc_health := gc_health state,
                gc_inventory := gc_inventory state, gc_position := gc_position state,
                gc_skills := gc_skills state\<rparr>)"

text \<open>
  The save manager: a \<^verbatim>\<open>Map\<close> from character names to arrays of mementos. A label that
  is \<^verbatim>\<open>null\<close> (\<open>None\<close>) or empty is not set.
\<close>

record SaveManager =
  savedGames :: "(string \<times> GameCharacterMemento list) list"

definition SaveManager_new :: SaveManager where
  "SaveManager_new = \<lparr>savedGames = []\<rparr>"

definition SaveManager_saveCharacter ::
  "nat \<Rightarrow> GameCharacter \<Rightarrow> string option \<Rightarrow> SaveManager \<Rightarrow> SaveManager" where
  "SaveManager_saveCharacter now character label mgr =
     (let memento = GameCharacter_save now character;
          memento' = (case label of
                        None \<Rightarrow> memento
                      | Some l \<Rightarrow> if l \<noteq> [] then GameCharacterMemento_setLabel l memento
                                  else memento);
          games = (if map_of (savedGames mgr) (gc_name character) = None
                   then Map_set (gc_name character) [] (savedGames mgr)
                   else savedGames mgr)
      in case map_of games (gc_name character) of
           None \<Rightarrow> mgr\<lparr>savedGames := games\<rparr>
         | Some saves \<Rightarrow>
             mgr\<lparr>savedGames := Map_set (gc_name character) (saves @ [memento']) games\<rparr>)"

definition SaveManager_loadCharacter ::
  "GameCharacter \<Rightarrow> int \<Rightarrow> SaveManager \<Rightarrow> GameCharacter" where
  "SaveManager_loadCharacter character index mgr =
     (case map_of (savedGames mgr) (gc_name character) of
        None \<Rightarrow> character
      | Some saves \<Rightarrow>
          if index < 0 \<or> index \<ge> int (length saves) then character
          else GameCharacter_restore (saves ! nat index) character)"

definition SaveManager_getSaveList ::
  "(nat \<Rightarrow> string) \<Rightarrow> string \<Rightarrow> SaveManager \<Rightarrow> string list" where
  "SaveManager_getSaveList toLocaleString characterName mgr =
     (case map_of (savedGames mgr) characterName of
        None \<Rightarrow> []
      | Some saves \<Rightarrow>
          map (\<lambda>(index, memento).
                 show_nat (index + 1) @ ''. '' @
                 GameCharacterMemento_getDescription toLocaleString memento)
            (enumerate 0 saves))"

definition SaveManager_deleteSave :: "string \<Rightarrow> int \<Rightarrow> SaveManager \<Rightarrow> SaveManager" where
  "SaveManager_deleteSave characterName index mgr =
     (case map_of (savedGames mgr) characterName of
        None \<Rightarrow> mgr
      | Some saves \<Rightarrow>
          if index < 0 \<or> index \<ge> int (length saves) then mgr
          else mgr\<lparr>savedGames := Map_set characterName (splice1 saves index) (savedGames mgr)\<rparr>)"

text \<open>
  \<^verbatim>\<open>EditorHistory.getStateList()\<close> asks every memento for its description; the memento's
  \<^verbatim>\<open>getDescription\<close> method is the parameter \<open>describe\<close>.
\<close>

definition EditorHistory_getStateList ::
  "('m \<Rightarrow> string) \<Rightarrow> 'm EditorHistory \<Rightarrow> string list" where
  "EditorHistory_getStateList describe h =
     map (\<lambda>(index, memento).
            (if int index = currentStateIndex h then ''> '' else ''  '') @
            show_nat (index + 1) @ ''. '' @ describe memento)
       (enumerate 0 (states h))"

text \<open>
  The statement side of "the caretaker does not look inside a memento": replacing every
  stored memento by its image under any function.
\<close>

definition map_history :: "('m \<Rightarrow> 'n) \<Rightarrow> 'm EditorHistory \<Rightarrow> 'n EditorHistory" where
  "map_history f h = \<lparr>states = map f (states h), currentStateIndex = currentStateIndex h\<rparr>"

definition map_result :: "('m \<Rightarrow> 'n) \<Rightarrow> 'm option \<times> 'm EditorHistory \<Rightarrow> 'n option \<times> 'n EditorHistory"
  where
  "map_result f r = (map_option f (fst r), map_history f (snd r))"

text \<open>The hero of the demonstration, before and after the first steps of the game.\<close>

definition hero :: GameCharacter where
  "hero = GameCharacter_new ''Hero''"

definition equipped_hero :: GameCharacter where
  "equipped_hero = GameCharacter_addItem ''Sword'' (GameCharacter_moveTo 10 5 hero)"

definition example_manager :: SaveManager where
  "example_manager = SaveManager_saveCharacter 0 hero (Some ''Game Start'') SaveManager_new"

section \<open>Abstract operations of the remaining base classes\<close>

text \<open>
  The bodies of the base classes' own methods, which a concrete class overrides. Each one
  only throws. The stubs of \<^verbatim>\<open>Coffee\<close>, \<^verbatim>\<open>FileSystemComponent\<close> and
  \<^verbatim>\<open>DeviceImplementation\<close> are defined with their patterns above.
\<close>

text \<open>Observer: \<^verbatim>\<open>Subject\<close> and \<^verbatim>\<open>Observer\<close>.\<close>

definition Subject_attach :: "ref \<Rightarrow> error + unit" where
  "Subject_attach observer =
     Inl (Error ''attach method must be implemented by concrete classes'')"

definition Subject_detach :: "ref \<Rightarrow> error + unit" where
  "Subject_detach observer =
     Inl (Error ''detach method must be implemented by concrete classes'')"

definition Subject_notify :: "error + unit" where
  "Subject_notify = Inl (Error ''notify method must be implemented by concrete classes'')"

definition Observer_update :: "'subject \<Rightarrow> error + unit" where
  "Observer_update subject =
     Inl (Error ''update method must be implemented by concrete classes'')"

text \<open>
  Proxy: \<^verbatim>\<open>DataSource\<close>. Its methods are \<^verbatim>\<open>async\<close>, so the error is the reason the
  returned promise is rejected with.
\<close>

definition DataSource_getData :: "string \<Rightarrow> error + jsvalue" where
  "DataSource_getData q =
     Inl (Error ''getData method must be implemented by concrete classes'')"

definition DataSource_saveData :: "jsvalue \<Rightarrow> error + bool" where
  "DataSource_saveData data =
     Inl (Error ''saveData method must be implemented by concrete classes'')"

text \<open>Adapter: \<^verbatim>\<open>PaymentProcessor\<close>.\<close>

definition PaymentProcessor_processPayment ::
  "real \<Rightarrow> string \<Rightarrow> 'details \<Rightarrow> error + PaymentResult" where
  "PaymentProcessor_processPayment amount currency paymentDetails =
     Inl (Error ''processPayment method must be implemented by concrete classes'')"

definition PaymentProcessor_refundPayment :: "string \<Rightarrow> real \<Rightarrow> error + RefundResult" where
  "PaymentProcessor_refundPayment transactionId amount =
     Inl (Error ''refundPayment method must be implemented by concrete classes'')"

definition PaymentProcessor_verifyPayment :: "string \<Rightarrow> error + VerifyResult" where
  "PaymentProcessor_verifyPayment transactionId =
     Inl (Error ''verifyPayment method must be implemented by concrete classes'')"

text \<open>
  Abstract factory: the abstract products \<^verbatim>\<open>Button\<close>, \<^verbatim>\<open>Checkbox\<close> and \<^verbatim>\<open>FormInput\<close>,
  whose methods return strings in the concrete classes, and the abstract \<^verbatim>\<open>UIFactory\<close>.
\<close>

definition Button_render :: "error + string" where
  "Button_render = Inl (Error ''Abstract method: render() must be implemented by subclasses'')"

definition Button_onClick :: "error + string" where
  "Button_onClick =
     Inl (Error ''Abstract method: onClick() must be implemented by subclasses'')"

definition Checkbox_render :: "error + string" where
  "Checkbox_render =
     Inl (Error ''Abstract method: render() must be implemented by subclasses'')"

definition Checkbox_toggle :: "error + string" where
  "Checkbox_toggle =
     Inl (Error ''Abstract method: toggle() must be implemented by subclasses'')"

definition FormInput_render :: "error + string" where
  "FormInput_render =
     Inl (Error ''Abstract method: render() must be implemented by subclasses'')"

definition FormInput_getValue :: "error + string" where
  "FormInput_getValue =
     Inl (Error ''Abstract method: getValue() must be implemented by subclasses'')"

definition UIFactory_createButton :: "error + 'button" where
  "UIFactory_createButton =
     Inl (Error ''Abstract method: createButton() must be implemented by subclasses'')"

definition UIFactory_createCheckbox :: "error + 'checkbox" where
  "UIFactory_createCheckbox =
     Inl (Error ''Abstract method: createCheckbox() must be implemented by subclasses'')"

definition UIFactory_createFormInput :: "error + 'forminput" where
  "UIFactory_createFormInput =
     Inl (Error ''Abstract method: createFormInput() must be implemented by subclasses'')"

text \<open>Factory method: the product \<^verbatim>\<open>Document\<close> and the creator \<^verbatim>\<open>Application\<close>.\<close>

definition Document_open :: "error + string" where
  "Document_open = Inl (Error ''Abstract method: open() must be implemented by subclasses'')"

definition Document_save :: "error + string" where
  "Document_save = Inl (Error ''Abstract method: save() must be implemented by subclasses'')"

definition Application_createDocument :: "string \<Rightarrow> error + 'document" where
  "Application_createDocument name =
     Inl (Error ''Factory method createDocument() must be implemented by subclasses'')"

section \<open>Verified properties\<close>

subsection \<open>JavaScript numbers: whole numbers up to \<open>2 ^ 53\<close> are added exactly\<close>

lemma bit_length_bounds:
  "0 < n \<Longrightarrow> 2 ^ (bit_length n - 1) \<le> n \<and> n < 2 ^ bit_length n"
proof (induction n rule: bit_length.induct)
  case (1 n)
  show ?case
  proof (cases "n div 2 = 0")
    case True
    with "1.prems" have "n = 1" by (simp add: div_eq_0_iff)
    then show ?thesis by (simp add: bit_length.simps)
  next
    case False
    then have pos: "0 < n div 2" by simp
    from "1.prems" have n0: "n \<noteq> 0" by simp
    from "1.IH" [OF n0 pos] have
      lo: "2 ^ (bit_length (n div 2) - 1) \<le> n div 2" and hi: "n div 2 < 2 ^ bit_length (n div 2)"
      by simp_all
    have bl: "bit_length n = Suc (bit_length (n div 2))"
      using n0 by (subst bit_length.simps) simp
    have blpos: "0 < bit_length (n div 2)"
      using pos by (subst bit_length.simps) simp
    then obtain k where k: "bit_length (n div 2) = Suc k" by (cases "bit_length (n div 2)") simp_all
    from lo k have "2 * 2 ^ k \<le> 2 * (n div 2)" by simp
    also have "\<dots> \<le> n" by simp
    finally have a: "2 ^ (bit_length n - 1) \<le> n" by (simp add: bl k)
    from hi have "Suc (n div 2) \<le> 2 ^ bit_length (n div 2)" by simp
    then have "2 * Suc (n div 2) \<le> 2 * 2 ^ bit_length (n div 2)" by simp
    moreover have "n < 2 * Suc (n div 2)" by arith
    ultimately have b: "n < 2 ^ bit_length n" by (simp add: bl)
    from a b show ?thesis ..
  qed
qed

lemma round_half_even_of_int: "round_half_even (of_int m) = m"
  by (simp add: round_half_even_def)

lemma round_double_nat:
  assumes "n \<le> 2 ^ 53"
  shows "round_double (real n) = real n"
proof (cases "n = 0")
  case True
  then show ?thesis by (simp add: round_double_def)
next
  case False
  then have pos: "0 < n" by simp
  let ?b = "bit_length n"
  from bit_length_bounds [OF pos] have lo: "2 ^ (?b - 1) \<le> n" and hi: "n < 2 ^ ?b" by simp_all
  have bpos: "0 < ?b" using False by (subst bit_length.simps) simp
  from lo assms have p53: "(2::nat) ^ (?b - 1) \<le> 2 ^ 53" by (rule order_trans)
  have b54: "?b - 1 \<le> 53"
  proof (rule power_le_imp_le_exp)
    show "(1::nat) < 2" by simp
    show "(2::nat) ^ (?b - 1) \<le> 2 ^ 53" by (fact p53)
  qed
  have ex: "exponent (real n) = int ?b - 1"
    using pos by (simp add: exponent_def)
  have emax: "max (int ?b - 1) (- 1022) = int ?b - 1" using bpos by simp
  define u where "u = pow2 (int ?b - 1 - 52)"
  have upos: "0 < u" by (simp add: u_def pow2_def)
  have "\<exists>m::int. real n / u = of_int m"
  proof (cases "?b - 1 \<le> 52")
    case True
    then have "u = 1 / 2 ^ (53 - ?b)"
      using bpos by (auto simp: u_def pow2_def nat_diff_distrib intro!: arg_cong [where f = "\<lambda>k. (2::real) ^ k"])
    then have "real n / u = of_int (int n * 2 ^ (53 - ?b))" by simp
    then show ?thesis ..
  next
    case False
    with b54 have b: "?b = 54" by simp
    with lo assms have n: "n = 2 ^ 53" by simp
    have "u = 2" by (simp add: u_def pow2_def b)
    then have "real n / u = of_int (2 ^ 52)" by (simp add: n)
    then show ?thesis ..
  qed
  then obtain m :: int where m: "real n / u = of_int m" ..
  then have mu: "of_int m * u = real n" using upos by (simp add: field_simps)
  have "round_double (real n) = sgn (real n) * (of_int (round_half_even (\<bar>real n\<bar> / u)) * u)"
    using False by (simp add: round_double_def ex emax u_def Let_def)
  also have "\<dots> = of_int (round_half_even (real n / u)) * u" using pos by simp
  also have "\<dots> = real n" by (simp only: m round_half_even_of_int mu)
  finally show ?thesis .
qed

lemma double_of_nat: "n \<le> 2 ^ 53 \<Longrightarrow> double_of (real n) = Number (real n)"
proof -
  assume n: "n \<le> 2 ^ 53"
  then have "real n \<le> 2 ^ 53" by (metis of_nat_le_iff of_nat_numeral of_nat_power)
  also have "(2::real) ^ 53 < 2 ^ 1024" by simp
  finally have "real n < pow2 1024" by (simp add: pow2_def)
  moreover have "- pow2 1024 < real n"
  proof -
    have "- pow2 1024 < 0" by (simp add: pow2_def)
    also have "0 \<le> real n" by simp
    finally show ?thesis .
  qed
  ultimately show ?thesis by (simp add: double_of_def round_double_nat [OF n] Let_def)
qed

lemma js_add_nat:
  "a + b \<le> 2 ^ 53 \<Longrightarrow> js_add (Number (real a)) (Number (real b)) = Number (real (a + b))"
  using double_of_nat [of "a + b"] by simp

text \<open>The definitions that evaluate the rounding of a literal or of a concrete sum.\<close>

lemmas double_eval =
  double_of_def round_double_def exponent_def round_half_even_def pow2_def bit_length.simps Let_def

subsection \<open>Decorator: the cost and description law\<close>

lemma getCost_wrap:
  "Coffee_getCost c = Inr x \<Longrightarrow> Coffee_getCost (wrap c d) = Inr (js_add x (increment d))"
  by (cases d) simp_all

lemma getDescription_wrap:
  "Coffee_getDescription c = Inr s \<Longrightarrow>
   Coffee_getDescription (wrap c d) = Inr (s @ suffix_of d)"
  by (cases d) simp_all

lemma getCost_foldl_wrap:
  "Coffee_getCost c = Inr x \<Longrightarrow>
   Coffee_getCost (foldl wrap c ds) = Inr (foldl js_add x (map increment ds))"
proof (induction ds arbitrary: c x)
  case Nil
  then show ?case by simp
next
  case (Cons d ds)
  from Cons.prems have "Coffee_getCost (wrap c d) = Inr (js_add x (increment d))"
    by (rule getCost_wrap)
  from Cons.IH [OF this] show ?case by simp
qed

lemma getDescription_foldl_wrap:
  "Coffee_getDescription c = Inr s \<Longrightarrow>
   Coffee_getDescription (foldl wrap c ds) = Inr (s @ concat (map suffix_of ds))"
proof (induction ds arbitrary: c s)
  case Nil
  then show ?case by simp
next
  case (Cons d ds)
  from Cons.prems have "Coffee_getDescription (wrap c d) = Inr (s @ suffix_of d)"
    by (rule getDescription_wrap)
  from Cons.IH [OF this] show ?case by simp
qed

lemma sugar_literal: "double_of (2 / 10) = Number (3602879701896397 / 18014398509481984)"
  by (simp add: double_eval)

lemma cream_literal: "double_of (7 / 10) = Number (3152519739159347 / 4503599627370496)"
  by (simp add: double_eval)

lemma syrup_literal: "double_of (6 / 10) = Number (5404319552844595 / 9007199254740992)"
  by (simp add: double_eval)

lemma three_sugars:
  "Coffee_getCost (decorate [Sugar, Sugar, Sugar]) =
     Inr (Number (2927339757790823 / 1125899906842624))"
  by (simp add: decorate_def sugar_literal) (simp add: double_eval)

lemma syrup_then_cream:
  "Coffee_getCost (decorate [VanillaSyrup, WhippedCream]) =
     Inr (Number (3715469692580659 / 1125899906842624))"
  by (simp add: decorate_def syrup_literal cream_literal) (simp add: double_eval)

lemma cream_then_syrup:
  "Coffee_getCost (decorate [WhippedCream, VanillaSyrup]) =
     Inr (Number (7430939385161319 / 2251799813685248))"
  by (simp add: decorate_def syrup_literal cream_literal) (simp add: double_eval)

text \<open>
  The claim C3 as stated gives the cost as the exact sum of the base cost 2.0 and the
  increments. Three sugars cost 2.6000000000000005 in the code, which is neither the
  exact sum 2.6 nor the double nearest to it; and vanilla syrup under whipped cream costs
  3.3 while whipped cream under vanilla syrup costs 3.3000000000000003, so the cost
  depends on the order of the decorators, which a sum does not.
\<close>

theorem decorator_exact_sum_counterexample:
  "Coffee_getCost (decorate [Sugar, Sugar, Sugar]) =
     Inr (Number (2927339757790823 / 1125899906842624)) \<and>
   (2927339757790823 / 1125899906842624 :: real) \<noteq> 2 + (2 / 10 + 2 / 10 + 2 / 10) \<and>
   Number (2927339757790823 / 1125899906842624) \<noteq> double_of (2 + (2 / 10 + 2 / 10 + 2 / 10)) \<and>
   Coffee_getCost (decorate [VanillaSyrup, WhippedCream]) \<noteq>
     Coffee_getCost (decorate [WhippedCream, VanillaSyrup])"
proof -
  have a: "(2927339757790823 / 1125899906842624 :: real) \<noteq> 2 + (2 / 10 + 2 / 10 + 2 / 10)"
    by simp
  have b: "Number (2927339757790823 / 1125899906842624) \<noteq>
           double_of (2 + (2 / 10 + 2 / 10 + 2 / 10))"
    by (simp add: double_eval)
  have c: "Coffee_getCost (decorate [VanillaSyrup, WhippedCream]) \<noteq>
     Coffee_getCost (decorate [WhippedCream, VanillaSyrup])"
    unfolding syrup_then_cream cream_then_syrup by simp
  from three_sugars a b c show ?thesis by (intro conjI)
qed

text \<open>
  C3, as the code has it. For any chain of the decorators \<^verbatim>\<open>Milk\<close>, \<^verbatim>\<open>Sugar\<close>,
  \<^verbatim>\<open>WhippedCream\<close> and \<^verbatim>\<open>VanillaSyrup\<close> around a \<^verbatim>\<open>SimpleCoffee\<close>, \<^verbatim>\<open>getCost()\<close> of the
  outermost wrapper returns the base cost 2.0 with the increments 0.5, 0.2, 0.7 and 0.6
  added one at a time in application order, innermost first, each addition rounded to
  the nearest double; and \<^verbatim>\<open>getDescription()\<close> returns the base description with each
  decorator's suffix appended in application order, innermost first.
\<close>

theorem decorator_chain_cost_description:
  "Coffee_getCost (decorate ds) = Inr (foldl js_add (Number 2) (map increment ds)) \<and>
   Coffee_getDescription (decorate ds) = Inr (''Simple coffee'' @ concat (map suffix_of ds))"
  unfolding decorate_def
  using getCost_foldl_wrap [of SimpleCoffee "Number 2" ds]
        getDescription_foldl_wrap [of SimpleCoffee "''Simple coffee''" ds]
  by simp

subsection \<open>Memento: the undo and redo round trip\<close>

lemma restore_Some: "TextEditor_restore (Some m) e = TextEditorMemento_getState m"
  by (simp add: TextEditor_restore_def Let_def)

lemma getState_save: "TextEditorMemento_getState (TextEditor_save now e) = e"
  by (simp add: TextEditorMemento_getState_def TextEditor_save_def TextEditorMemento_new_def)

lemma push_at_end:
  "currentStateIndex h = int (length (states h)) - 1 \<Longrightarrow>
   EditorHistory_push m h =
     \<lparr>states = states h @ [m], currentStateIndex = int (length (states h))\<rparr>"
  by (simp add: EditorHistory_push_def Let_def)

lemma push_all_at_end:
  "currentStateIndex h = int (length (states h)) - 1 \<Longrightarrow>
   push_all ms h =
     \<lparr>states = states h @ ms, currentStateIndex = int (length (states h) + length ms) - 1\<rparr>"
proof (induction ms arbitrary: h)
  case Nil
  then show ?case by (simp add: push_all_def)
next
  case (Cons m ms)
  let ?h = "EditorHistory_push m h"
  have eq: "?h = \<lparr>states = states h @ [m], currentStateIndex = int (length (states h))\<rparr>"
    using Cons.prems by (rule push_at_end)
  then have "currentStateIndex ?h = int (length (states ?h)) - 1" by simp
  from Cons.IH [OF this] show ?case
    by (simp add: push_all_def eq)
qed

lemma push_all_new:
  "push_all ms EditorHistory_new = \<lparr>states = ms, currentStateIndex = int (length ms) - 1\<rparr>"
  using push_all_at_end [of EditorHistory_new ms] by (simp add: EditorHistory_new_def)

lemma client_undo_step:
  "0 < c \<Longrightarrow> c \<le> int (length ms) \<Longrightarrow>
   client_undo (\<lparr>states = ms, currentStateIndex = c\<rparr>, e) =
     (\<lparr>states = ms, currentStateIndex = c - 1\<rparr>, TextEditorMemento_getState (ms ! nat (c - 1)))"
  by (simp add: client_undo_def EditorHistory_undo_def index_at_def restore_Some Let_def)

lemma client_redo_step:
  "-1 \<le> c \<Longrightarrow> c < int (length ms) - 1 \<Longrightarrow>
   client_redo (\<lparr>states = ms, currentStateIndex = c\<rparr>, e) =
     (\<lparr>states = ms, currentStateIndex = c + 1\<rparr>, TextEditorMemento_getState (ms ! nat (c + 1)))"
  by (simp add: client_redo_def EditorHistory_redo_def index_at_def restore_Some Let_def)

lemma client_undo_iter:
  "1 \<le> j \<Longrightarrow> int j \<le> c \<Longrightarrow> c < int (length ms) \<Longrightarrow>
   (client_undo ^^ j) (\<lparr>states = ms, currentStateIndex = c\<rparr>, e) =
     (\<lparr>states = ms, currentStateIndex = c - int j\<rparr>,
      TextEditorMemento_getState (ms ! nat (c - int j)))"
proof (induction j)
  case 0
  then show ?case by simp
next
  case (Suc j)
  show ?case
  proof (cases "j = 0")
    case True
    with Suc.prems show ?thesis by (simp add: client_undo_step)
  next
    case False
    with Suc have IH: "(client_undo ^^ j) (\<lparr>states = ms, currentStateIndex = c\<rparr>, e) =
     (\<lparr>states = ms, currentStateIndex = c - int j\<rparr>,
      TextEditorMemento_getState (ms ! nat (c - int j)))" by simp
    have eq: "c - int j - 1 = c - int (Suc j)" by simp
    have "client_undo (\<lparr>states = ms, currentStateIndex = c - int j\<rparr>,
            TextEditorMemento_getState (ms ! nat (c - int j))) =
          (\<lparr>states = ms, currentStateIndex = c - int j - 1\<rparr>,
            TextEditorMemento_getState (ms ! nat (c - int j - 1)))"
      using Suc.prems by (intro client_undo_step) simp_all
    then show ?thesis
      unfolding eq by (simp only: funpow.simps o_apply IH)
  qed
qed

lemma client_redo_iter:
  "1 \<le> i \<Longrightarrow> -1 \<le> c \<Longrightarrow> c + int i < int (length ms) \<Longrightarrow>
   (client_redo ^^ i) (\<lparr>states = ms, currentStateIndex = c\<rparr>, e) =
     (\<lparr>states = ms, currentStateIndex = c + int i\<rparr>,
      TextEditorMemento_getState (ms ! nat (c + int i)))"
proof (induction i)
  case 0
  then show ?case by simp
next
  case (Suc i)
  show ?case
  proof (cases "i = 0")
    case True
    with Suc.prems show ?thesis by (simp add: client_redo_step)
  next
    case False
    with Suc have IH: "(client_redo ^^ i) (\<lparr>states = ms, currentStateIndex = c\<rparr>, e) =
     (\<lparr>states = ms, currentStateIndex = c + int i\<rparr>,
      TextEditorMemento_getState (ms ! nat (c + int i)))" by simp
    have eq: "c + int i + 1 = c + int (Suc i)" by simp
    have "client_redo (\<lparr>states = ms, currentStateIndex = c + int i\<rparr>,
            TextEditorMemento_getState (ms ! nat (c + int i))) =
          (\<lparr>states = ms, currentStateIndex = c + int i + 1\<rparr>,
            TextEditorMemento_getState (ms ! nat (c + int i + 1)))"
      using Suc.prems by (intro client_redo_step) simp_all
    then show ?thesis
      unfolding eq by (simp only: funpow.simps o_apply IH)
  qed
qed

lemma save_all_nth:
  "i < length snaps \<Longrightarrow> TextEditorMemento_getState (save_all snaps ! i) = snd (snaps ! i)"
  by (simp add: save_all_def getState_save split: prod.splits)

text \<open>
  C1. Round trip of the \<^verbatim>\<open>EditorHistory\<close> caretaker with the \<^verbatim>\<open>TextEditor\<close>
  originator. After the saved states \<open>S0..Sk\<close> have been pushed in that order, the
  \<open>j\<close>-th of \<open>k\<close> undo steps restores exactly the editor state saved in \<open>S(k-j)\<close>, and
  the \<open>i\<close>-th of the following \<open>k\<close> redo steps restores exactly the state saved in
  \<open>Si\<close>. An undo with the cursor at index 0 (or below) and a redo with the cursor at
  the last index return \<^verbatim>\<open>null\<close> and leave the history and the editor unchanged.
\<close>

theorem memento_undo_redo_round_trip:
  assumes "snaps \<noteq> []"
  shows "(\<forall>j. 1 \<le> j \<and> j \<le> length snaps - 1 \<longrightarrow>
            (client_undo ^^ j) (push_all (save_all snaps) EditorHistory_new, e) =
              (\<lparr>states = save_all snaps, currentStateIndex = int (length snaps - 1 - j)\<rparr>,
               snd (snaps ! (length snaps - 1 - j)))) \<and>
         (\<forall>i. 1 \<le> i \<and> i \<le> length snaps - 1 \<longrightarrow>
            (client_redo ^^ i)
              ((client_undo ^^ (length snaps - 1)) (push_all (save_all snaps) EditorHistory_new, e)) =
              (\<lparr>states = save_all snaps, currentStateIndex = int i\<rparr>, snd (snaps ! i))) \<and>
         (\<forall>h e'. currentStateIndex h \<le> 0 \<longrightarrow>
            EditorHistory_undo h = (None, h) \<and> client_undo (h, e') = (h, e')) \<and>
         (\<forall>h e'. currentStateIndex h \<ge> int (length (states h)) - 1 \<longrightarrow>
            EditorHistory_redo h = (None, h) \<and> client_redo (h, e') = (h, e'))"
proof -
  let ?ms = "save_all snaps"
  let ?k = "length snaps - 1"
  have len: "length ?ms = length snaps" by (simp add: save_all_def)
  have h0: "push_all ?ms EditorHistory_new = \<lparr>states = ?ms, currentStateIndex = int ?k\<rparr>"
    using assms by (simp add: push_all_new len of_nat_diff Suc_leI)
  have undo: "(client_undo ^^ j) (push_all ?ms EditorHistory_new, e) =
              (\<lparr>states = ?ms, currentStateIndex = int (?k - j)\<rparr>, snd (snaps ! (?k - j)))"
    if "1 \<le> j" "j \<le> ?k" for j
  proof -
    have a: "(client_undo ^^ j) (\<lparr>states = ?ms, currentStateIndex = int ?k\<rparr>, e) =
      (\<lparr>states = ?ms, currentStateIndex = int ?k - int j\<rparr>,
       TextEditorMemento_getState (?ms ! nat (int ?k - int j)))"
      using that assms by (intro client_undo_iter) (simp_all add: len)
    have eq: "int ?k - int j = int (?k - j)" using that by simp
    have "?k - j < length snaps" using assms by (cases snaps) simp_all
    then have c: "TextEditorMemento_getState (?ms ! (?k - j)) = snd (snaps ! (?k - j))"
      by (rule save_all_nth)
    show ?thesis unfolding h0 using a unfolding eq nat_int c .
  qed
  have redo: "(client_redo ^^ i) ((client_undo ^^ ?k) (push_all ?ms EditorHistory_new, e)) =
              (\<lparr>states = ?ms, currentStateIndex = int i\<rparr>, snd (snaps ! i))"
    if "1 \<le> i" "i \<le> ?k" for i
  proof -
    from that have "1 \<le> ?k" by simp
    from undo [OF this] have
      u: "(client_undo ^^ ?k) (push_all ?ms EditorHistory_new, e) =
          (\<lparr>states = ?ms, currentStateIndex = 0\<rparr>, snd (snaps ! 0))" by simp
    have a: "(client_redo ^^ i) (\<lparr>states = ?ms, currentStateIndex = 0\<rparr>, snd (snaps ! 0)) =
      (\<lparr>states = ?ms, currentStateIndex = 0 + int i\<rparr>,
       TextEditorMemento_getState (?ms ! nat (0 + int i)))"
      using that assms by (intro client_redo_iter) (simp_all add: len)
    have "i < length snaps" using that assms by (cases snaps) simp_all
    then have c: "TextEditorMemento_getState (?ms ! i) = snd (snaps ! i)"
      by (rule save_all_nth)
    show ?thesis unfolding u using a unfolding add_0 nat_int c .
  qed
  have noop_undo: "EditorHistory_undo h = (None, h) \<and> client_undo (h, e') = (h, e')"
    if "currentStateIndex h \<le> 0" for h :: "TextEditorMemento EditorHistory" and e'
    using that by (simp add: EditorHistory_undo_def client_undo_def)
  have noop_redo: "EditorHistory_redo h = (None, h) \<and> client_redo (h, e') = (h, e')"
    if "currentStateIndex h \<ge> int (length (states h)) - 1"
    for h :: "TextEditorMemento EditorHistory" and e'
    using that by (simp add: EditorHistory_redo_def client_redo_def)
  from undo redo noop_undo noop_redo show ?thesis by blast
qed


theorem memento_undo_redo_round_trip_witness:
  "example_snaps \<noteq> [] \<and>
   (client_undo ^^ 1) (push_all (save_all example_snaps) EditorHistory_new, TextEditor_new) =
     (\<lparr>states = save_all example_snaps, currentStateIndex = 1\<rparr>,
      TextEditor_write ''Hi'' TextEditor_new) \<and>
   (client_undo ^^ 2) (push_all (save_all example_snaps) EditorHistory_new, TextEditor_new) =
     (\<lparr>states = save_all example_snaps, currentStateIndex = 0\<rparr>, TextEditor_new) \<and>
   (client_redo ^^ 2)
     ((client_undo ^^ 2) (push_all (save_all example_snaps) EditorHistory_new, TextEditor_new)) =
     (\<lparr>states = save_all example_snaps, currentStateIndex = 2\<rparr>,
      TextEditor_changeFont ''Times'' 14 (TextEditor_write ''Hi'' TextEditor_new)) \<and>
   EditorHistory_undo \<lparr>states = save_all example_snaps, currentStateIndex = 0\<rparr> =
     (None, \<lparr>states = save_all example_snaps, currentStateIndex = 0\<rparr>) \<and>
   client_redo (push_all (save_all example_snaps) EditorHistory_new, TextEditor_new) =
     (push_all (save_all example_snaps) EditorHistory_new, TextEditor_new)"
proof -
  have ne: "example_snaps \<noteq> []" by (simp add: example_snaps_def)
  have len: "length example_snaps = 3" by (simp add: example_snaps_def)
  note r = memento_undo_redo_round_trip [OF ne, of TextEditor_new]
  have u1: "(client_undo ^^ 1) (push_all (save_all example_snaps) EditorHistory_new, TextEditor_new) =
     (\<lparr>states = save_all example_snaps, currentStateIndex = 1\<rparr>,
      TextEditor_write ''Hi'' TextEditor_new)"
    using r [THEN conjunct1, rule_format, of 1] by (simp add: len) (simp add: example_snaps_def)
  have u2: "(client_undo ^^ 2) (push_all (save_all example_snaps) EditorHistory_new, TextEditor_new) =
     (\<lparr>states = save_all example_snaps, currentStateIndex = 0\<rparr>, TextEditor_new)"
    using r [THEN conjunct2, THEN conjunct1, rule_format, of 2]
          r [THEN conjunct1, rule_format, of 2] by (simp add: len) (simp add: example_snaps_def)
  have r2: "(client_redo ^^ 2)
     ((client_undo ^^ 2) (push_all (save_all example_snaps) EditorHistory_new, TextEditor_new)) =
     (\<lparr>states = save_all example_snaps, currentStateIndex = 2\<rparr>,
      TextEditor_changeFont ''Times'' 14 (TextEditor_write ''Hi'' TextEditor_new))"
    using r [THEN conjunct2, THEN conjunct1, rule_format, of 2]
    by (simp add: len) (simp add: example_snaps_def)
  have n1: "EditorHistory_undo \<lparr>states = save_all example_snaps, currentStateIndex = 0\<rparr> =
     (None, \<lparr>states = save_all example_snaps, currentStateIndex = 0\<rparr>)"
    using r [THEN conjunct2, THEN conjunct2, THEN conjunct1, rule_format,
             of "\<lparr>states = save_all example_snaps, currentStateIndex = 0\<rparr>"]
    by simp
  have n2: "client_redo (push_all (save_all example_snaps) EditorHistory_new, TextEditor_new) =
     (push_all (save_all example_snaps) EditorHistory_new, TextEditor_new)"
    using r [THEN conjunct2, THEN conjunct2, THEN conjunct2, rule_format,
             of "push_all (save_all example_snaps) EditorHistory_new" TextEditor_new]
    by (simp add: push_all_new save_all_def)
  from ne u1 u2 r2 n1 n2 show ?thesis by blast
qed

subsection \<open>Composite: sizes and search by extension\<close>

lemma foldl_js_add_nat:
  "a + sum_list ns \<le> 2 ^ 53 \<Longrightarrow>
   foldl js_add (Number (real a)) (map (\<lambda>n. Number (real n)) ns) =
     Number (real (a + sum_list ns))"
proof (induction ns arbitrary: a)
  case Nil
  show ?case by simp
next
  case (Cons n ns)
  from Cons.prems have le: "a + n \<le> 2 ^ 53" by simp
  from Cons.prems have "a + n + sum_list ns \<le> 2 ^ 53" by (simp add: add.assoc)
  note IH = Cons.IH [OF this]
  have step: "js_add (Number (real a)) (Number (real n)) = Number (real (a + n))"
    using le by (rule js_add_nat)
  have "foldl js_add (Number (real a)) (map (\<lambda>n. Number (real n)) (n # ns)) =
        foldl js_add (js_add (Number (real a)) (Number (real n))) (map (\<lambda>n. Number (real n)) ns)"
    by (simp only: list.map foldl_Cons)
  also have "\<dots> = Number (real (a + n + sum_list ns))"
    by (simp only: step IH)
  also have "\<dots> = Number (real (a + sum_list (n # ns)))"
    by (simp add: add.assoc)
  finally show ?case .
qed

lemma getSize_Directory:
  "getSize (Directory name children parentPath) = foldl js_add (Number 0) (map getSize children)"
  by (simp add: foldl_map)

lemma concat_eq_map:
  "concat xss = map f ns \<Longrightarrow> \<exists>nss. ns = concat nss \<and> xss = map (map f) nss"
proof (induction xss arbitrary: ns)
  case Nil
  then have "ns = concat [] \<and> [] = map (map f) []" by simp
  then show ?case by (rule exI)
next
  case (Cons xs xss)
  from Cons.prems have "map f ns = xs @ concat xss" by simp
  then obtain us vs where ns: "ns = us @ vs" and xs: "xs = map f us" and r: "concat xss = map f vs"
    by (auto simp: map_eq_append_conv)
  from Cons.IH [OF r] obtain nss where "vs = concat nss" "xss = map (map f) nss" by blast
  with ns xs have "ns = concat (us # nss) \<and> xs # xss = map (map f) (us # nss)" by simp
  then show ?case by (rule exI)
qed

lemma sum_list_concat_nat: "sum_list (concat nss) = sum_list (map sum_list nss)"
  for nss :: "nat list list"
  by (induction nss) simp_all

lemma children_sizes:
  "(\<And>c ns. c \<in> set cs \<Longrightarrow> file_sizes c = map (\<lambda>n. Number (real n)) ns \<Longrightarrow>
      sum_list ns \<le> 2 ^ 53 \<Longrightarrow> getSize c = Number (real (sum_list ns))) \<Longrightarrow>
   map file_sizes cs = map (map (\<lambda>n. Number (real n))) nss \<Longrightarrow>
   sum_list (concat nss) \<le> 2 ^ 53 \<Longrightarrow>
   map getSize cs = map (\<lambda>t. Number (real t)) (map sum_list nss)"
proof (induction cs arbitrary: nss)
  case Nil
  then show ?case by simp
next
  case (Cons c cs)
  from Cons.prems(2) obtain ns rest where nss: "nss = ns # rest" by (cases nss) simp_all
  from Cons.prems(2) nss have c: "file_sizes c = map (\<lambda>n. Number (real n)) ns"
    and cs: "map file_sizes cs = map (map (\<lambda>n. Number (real n))) rest" by simp_all
  from Cons.prems(3) nss have le1: "sum_list ns \<le> 2 ^ 53" and le2: "sum_list (concat rest) \<le> 2 ^ 53"
    by simp_all
  have "getSize c = Number (real (sum_list ns))"
    using c le1 by (intro Cons.prems(1)) simp_all
  moreover have "map getSize cs = map (\<lambda>t. Number (real t)) (map sum_list rest)"
    using cs le2 by (intro Cons.IH Cons.prems(1)) simp_all
  ultimately show ?case by (simp add: nss)
qed

lemma getSize_whole_bytes:
  "file_sizes d = map (\<lambda>n. Number (real n)) ns \<Longrightarrow> sum_list ns \<le> 2 ^ 53 \<Longrightarrow>
   getSize d = Number (real (sum_list ns))"
proof (induction d arbitrary: ns)
  case (File name sz parentPath)
  then show ?case by (cases ns) simp_all
next
  case (Directory name children parentPath)
  from Directory.prems(1) have "concat (map file_sizes children) = map (\<lambda>n. Number (real n)) ns"
    by simp
  from concat_eq_map [OF this] obtain nss where
    ns: "ns = concat nss" and m: "map file_sizes children = map (map (\<lambda>n. Number (real n))) nss"
    by blast
  from Directory.prems(2) ns have le: "sum_list (concat nss) \<le> 2 ^ 53" by simp
  have sizes: "map getSize children = map (\<lambda>t. Number (real t)) (map sum_list nss)"
    using m le by (intro children_sizes Directory.IH) simp_all
  from le have "0 + sum_list (map sum_list nss) \<le> 2 ^ 53" by (simp add: sum_list_concat_nat)
  from foldl_js_add_nat [OF this]
  have "foldl js_add (Number 0) (map getSize children) = Number (real (sum_list (concat nss)))"
    by (simp add: sizes sum_list_concat_nat)
  then show ?case by (simp only: getSize_Directory ns)
qed

lemma all_nodes_leaf: "isLeaf c \<Longrightarrow> all_nodes c = [c]"
  by (cases c) simp_all

lemma find_filter:
  "(\<not> isLeaf c \<longrightarrow> Directory_find p c = Inr (filter p (all_nodes c)))"
  "find_children p cs acc = Inr (acc @ filter p (concat (map all_nodes cs)))"
proof (induction p c and p cs acc rule: Directory_find_find_children.induct)
  case (1 predicate name sz parentPath)
  show ?case by simp
next
  case (2 predicate name children parentPath)
  then show ?case by simp
next
  case (3 predicate acc)
  show ?case by simp
next
  case (4 predicate child rest acc)
  show ?case
  proof (cases "isLeaf child")
    case True
    with "4.IH"(1) show ?thesis by (cases "predicate child") (simp_all add: all_nodes_leaf)
  next
    case False
    with 4 show ?thesis by simp
  qed
qed

lemma is_file_named_iff:
  "is_file_named ext c \<longleftrightarrow> getType c = ''file'' \<and> endsWith (getName c) ext"
  by (cases c) simp_all

lemma findByExtension_Directory:
  "findByExtension ext (Directory name children parentPath) =
     Inr (filter (is_file_named ext) (all_nodes (Directory name children parentPath)))"
proof -
  have "(\<lambda>c. getType c = ''file'' \<and> endsWith (getName c) ext) = is_file_named ext"
    by (rule ext) (simp add: is_file_named_iff)
  then show ?thesis
    unfolding findByExtension_def by (simp add: find_filter(2))
qed

text \<open>
  The claim C2 as stated gives the size of a directory as the sum of the sizes of its
  leaf files. A directory holding a file of \<open>2 ^ 53\<close> bytes and a file of one byte reports
  \<open>2 ^ 53\<close> bytes: the addition of the two sizes is rounded to the nearest double.
\<close>

theorem composite_exact_sum_counterexample:
  "file_sizes big_tree = [Number (2 ^ 53), Number 1] \<and>
   getSize big_tree = Number (2 ^ 53) \<and>
   (2 ^ 53 :: real) \<noteq> 2 ^ 53 + 1"
  by (simp add: big_tree_def) (simp add: double_eval)

text \<open>
  C2, as the code has it. \<^verbatim>\<open>getSize()\<close> of a \<^verbatim>\<open>File\<close> is the size it was constructed
  with; \<^verbatim>\<open>getSize()\<close> of a \<^verbatim>\<open>Directory\<close> is the sizes of its immediate children added
  from left to right, starting from 0, each addition rounded to the nearest double, the
  size of a child directory computed in the same way; when the sizes of the leaf files
  of the subtree are whole numbers of bytes whose sum is at most \<open>2 ^ 53\<close>, this is
  their exact sum. For every \<^verbatim>\<open>Directory\<close> and suffix \<open>s\<close>, \<^verbatim>\<open>findByExtension(s)\<close>
  returns exactly the components of the subtree, at any depth and in traversal order,
  that are files (leaf nodes of type \<^verbatim>\<open>'file'\<close>) with a name ending with \<open>s\<close>.
\<close>

theorem composite_size_and_findByExtension:
  "getSize (File name sz parentPath) = sz \<and>
   getSize (Directory name children parentPath) =
     foldl js_add (Number 0) (map getSize children) \<and>
   (file_sizes d = map (\<lambda>n. Number (real n)) ns \<and> sum_list ns \<le> 2 ^ 53 \<longrightarrow>
      getSize d = Number (real (sum_list ns))) \<and>
   findByExtension ext (Directory name children parentPath) =
     Inr (filter (is_file_named ext) (all_nodes (Directory name children parentPath)))"
  using getSize_Directory [of name children parentPath] getSize_whole_bytes [of d ns]
    findByExtension_Directory [of ext name children parentPath]
  by simp

text \<open>
  The law C2 on a tree with files of 10, 20, 5 and 7 bytes at three depths and an empty
  directory named \<^verbatim>\<open>x.txt\<close>.
\<close>

theorem composite_size_and_findByExtension_witness:
  "file_sizes example_tree = map (\<lambda>n. Number (real n)) [10, 20, 5, 7] \<and>
   sum_list [10, 20, 5, 7] \<le> (2 ^ 53 :: nat) \<and>
   getSize example_tree = Number 42 \<and>
   findByExtension ''.txt'' example_tree =
     Inr [File ''a.txt'' (Number 10) ''root'', File ''c.txt'' (Number 5) ''root/src'',
          File ''d.txt'' (Number 7) ''root/src/deep'']"
proof -
  have fs: "file_sizes example_tree = map (\<lambda>n. Number (real n)) [10, 20, 5, 7]"
    by (simp add: example_tree_def)
  have le: "sum_list [10, 20, 5, 7] \<le> (2 ^ 53 :: nat)" by simp
  note w = composite_size_and_findByExtension [where d = example_tree and ns = "[10, 20, 5, 7]"
      and ext = "''.txt''" and name = "''root''" and parentPath = "[]"
      and children = "[File ''a.txt'' (Number 10) ''root'',
        Directory ''src''
          [File ''b.js'' (Number 20) ''root/src'',
           File ''c.txt'' (Number 5) ''root/src'',
           Directory ''deep'' [File ''d.txt'' (Number 7) ''root/src/deep''] ''root/src'']
          ''root'',
        Directory ''x.txt'' [] ''root'']"]
  from w [THEN conjunct2, THEN conjunct2, THEN conjunct1] fs le
  have sz: "getSize example_tree = Number 42" by simp
  from w [THEN conjunct2, THEN conjunct2, THEN conjunct2]
  have fe: "findByExtension ''.txt'' example_tree =
     Inr [File ''a.txt'' (Number 10) ''root'', File ''c.txt'' (Number 5) ''root/src'',
          File ''d.txt'' (Number 7) ''root/src/deep'']"
    by (simp add: example_tree_def endsWith_def)
  from fs le sz fe show ?thesis by (intro conjI)
qed

subsection \<open>Observer: attach, detach and notify\<close>

lemma indexOf_ge: "-1 \<le> indexOf xs x"
  by (induction xs) (simp_all add: Let_def)

lemma indexOf_notin: "indexOf xs x = -1 \<longleftrightarrow> x \<notin> set xs"
proof (induction xs)
  case Nil
  show ?case by simp
next
  case (Cons y ys)
  have "indexOf ys x + 1 \<noteq> -1" using indexOf_ge [of ys x] by arith
  with Cons show ?case by (auto simp: Let_def)
qed

lemma indexOf_range: "x \<in> set xs \<Longrightarrow> 0 \<le> indexOf xs x"
  using indexOf_ge [of xs x] indexOf_notin [of xs x] by arith

lemma splice1_indexOf:
  "distinct xs \<Longrightarrow> x \<in> set xs \<Longrightarrow> splice1 xs (indexOf xs x) = filter (\<lambda>y. y \<noteq> x) xs"
proof (induction xs)
  case Nil
  then show ?case by simp
next
  case (Cons y ys)
  show ?case
  proof (cases "y = x")
    case True
    with Cons.prems have "x \<notin> set ys" by simp
    then have "filter (\<lambda>y. y \<noteq> x) ys = ys" by (intro filter_True) auto
    with True show ?thesis by (simp add: splice1_def)
  next
    case False
    with Cons.prems have x: "x \<in> set ys" and d: "distinct ys" by simp_all
    from x have "indexOf ys x \<noteq> -1" by (simp add: indexOf_notin)
    moreover from x have "0 \<le> indexOf ys x" by (rule indexOf_range)
    moreover have "splice1 ys (indexOf ys x) = filter (\<lambda>y. y \<noteq> x) ys"
      using d x by (rule Cons.IH)
    ultimately show ?thesis using False
      by (simp add: splice1_def Let_def nat_add_distrib)
  qed
qed

lemma detach_observers:
  "distinct (observers s) \<Longrightarrow>
   observers (WeatherStation_detach x s) = filter (\<lambda>y. y \<noteq> x) (observers s)"
proof (cases "x \<in> set (observers s)")
  case True
  assume "distinct (observers s)"
  with True show ?thesis
    by (simp add: WeatherStation_detach_def Let_def indexOf_notin splice1_indexOf)
next
  case False
  then have "filter (\<lambda>y. y \<noteq> x) (observers s) = observers s" by (intro filter_True) auto
  with False show ?thesis
    by (simp add: WeatherStation_detach_def Let_def indexOf_notin)
qed

lemma attach_observers:
  "observers (WeatherStation_attach x s) =
     (if x \<in> set (observers s) then observers s else observers s @ [x])"
  by (simp add: WeatherStation_attach_def Let_def)

lemma step_distinct:
  "distinct (observers (fst sst)) \<Longrightarrow> distinct (observers (fst (station_step update sst op)))"
  by (cases op)
     (simp_all add: attach_observers detach_observers WeatherStation_setMeasurements_def Let_def)

lemma run_distinct:
  "distinct (observers (fst sst)) \<Longrightarrow> distinct (observers (fst (station_run update ops sst)))"
  unfolding station_run_def
  by (induction ops arbitrary: sst) (simp_all add: step_distinct)

lemma notify_foldl:
  "distinct xs \<Longrightarrow>
   foldl (\<lambda>st observer. st(observer := f (st observer))) store xs x =
     (if x \<in> set xs then f (store x) else store x)"
  by (induction xs arbitrary: store) auto

lemma notify_apply:
  "distinct (observers s) \<Longrightarrow>
   WeatherStation_notify update s store x =
     (if x \<in> set (observers s) then update s (store x) else store x)"
  unfolding WeatherStation_notify_def by (rule notify_foldl)

lemma step_not_attached:
  "distinct (observers (fst sst)) \<Longrightarrow> x \<notin> set (observers (fst sst)) \<Longrightarrow> op \<noteq> Attach x \<Longrightarrow>
   x \<notin> set (observers (fst (station_step update sst op))) \<and>
   snd (station_step update sst op) x = snd sst x"
  by (cases op)
     (auto simp: attach_observers detach_observers WeatherStation_setMeasurements_def Let_def
        notify_apply)

lemma run_not_attached:
  "distinct (observers (fst sst)) \<Longrightarrow> x \<notin> set (observers (fst sst)) \<Longrightarrow>
   Attach x \<notin> set ops \<Longrightarrow>
   x \<notin> set (observers (fst (station_run update ops sst))) \<and>
   snd (station_run update ops sst) x = snd sst x"
proof (induction ops arbitrary: sst)
  case Nil
  then show ?case by (simp add: station_run_def)
next
  case (Cons op ops)
  let ?sst = "station_step update sst op"
  from Cons.prems have ne: "op \<noteq> Attach x" by auto
  have d: "distinct (observers (fst ?sst))" using Cons.prems(1) by (rule step_distinct)
  have n: "x \<notin> set (observers (fst ?sst))" "snd ?sst x = snd sst x"
    using step_not_attached [OF Cons.prems(1,2) ne] by simp_all
  from Cons.prems have "Attach x \<notin> set ops" by simp
  from Cons.IH [OF d n(1) this] n(2) show ?case by (simp add: station_run_def)
qed


text \<open>
  C4. For a \<^verbatim>\<open>WeatherStation\<close> reached by any sequence of \<^verbatim>\<open>attach\<close>, \<^verbatim>\<open>detach\<close> and
  \<^verbatim>\<open>setMeasurements\<close> calls from a new station: the observer list never holds an
  observer twice; \<^verbatim>\<open>attach(o)\<close> of an observer already in the list changes nothing, and
  a \<^verbatim>\<open>notify()\<close> applies \<^verbatim>\<open>update\<close> to \<open>o\<close> exactly once however often \<open>o\<close> was attached;
  after \<^verbatim>\<open>detach(o)\<close> the observer is no longer in the list and no later call that does
  not attach it again updates it, while every other attached observer stays attached
  and receives exactly one update per notification.
\<close>

theorem observer_attach_detach_notify:
  fixes update :: "WeatherStation \<Rightarrow> 'o \<Rightarrow> 'o"
  assumes "(s, store) = station_run update ops (WeatherStation_new, store0)"
  shows "distinct (observers s) \<and>
    (x \<in> set (observers s) \<longrightarrow>
       WeatherStation_attach x s = s \<and>
       WeatherStation_notify update s store x = update s (store x)) \<and>
    x \<notin> set (observers (WeatherStation_detach x s)) \<and>
    (\<forall>ops'. Attach x \<notin> set ops' \<longrightarrow>
       x \<notin> set (observers (fst (station_run update ops' (WeatherStation_detach x s, store)))) \<and>
       snd (station_run update ops' (WeatherStation_detach x s, store)) x = store x) \<and>
    (\<forall>y. y \<noteq> x \<and> y \<in> set (observers s) \<longrightarrow>
       y \<in> set (observers (WeatherStation_detach x s)) \<and>
       WeatherStation_notify update (WeatherStation_detach x s) store y =
         update (WeatherStation_detach x s) (store y))"
proof -
  have "distinct (observers (fst (WeatherStation_new, store0)))"
    by (simp add: WeatherStation_new_def)
  then have "distinct (observers (fst (station_run update ops (WeatherStation_new, store0))))"
    by (rule run_distinct)
  with assms have d: "distinct (observers s)" by (metis fst_conv)
  let ?s' = "WeatherStation_detach x s"
  have obs': "observers ?s' = filter (\<lambda>y. y \<noteq> x) (observers s)"
    using d by (rule detach_observers)
  have d': "distinct (observers ?s')" by (simp add: obs' d)
  have a: "WeatherStation_attach x s = s \<and>
           WeatherStation_notify update s store x = update s (store x)"
    if "x \<in> set (observers s)"
    using that d by (simp add: WeatherStation_attach_def notify_apply)
  have b: "x \<notin> set (observers ?s')" by (simp add: obs')
  have c: "x \<notin> set (observers (fst (station_run update ops' (?s', store)))) \<and>
           snd (station_run update ops' (?s', store)) x = store x"
    if "Attach x \<notin> set ops'" for ops'
    using run_not_attached [of "(?s', store)" x ops' update] d' b that by simp
  have e: "y \<in> set (observers ?s') \<and>
           WeatherStation_notify update ?s' store y = update ?s' (store y)"
    if "y \<noteq> x \<and> y \<in> set (observers s)" for y
    using that d' by (simp add: notify_apply) (simp add: obs')
  from d a b c e show ?thesis by blast
qed

theorem observer_attach_detach_notify_witness:
  "observers (fst example_station) = [1, 2] \<and>
   WeatherStation_attach 1 (fst example_station) = fst example_station \<and>
   WeatherStation_notify StatisticsDisplay_update (fst example_station) (snd example_station) 1 =
     [20, 20] \<and>
   1 \<notin> set (observers (WeatherStation_detach 1 (fst example_station))) \<and>
   snd (station_run StatisticsDisplay_update [SetMeasurements 25 40 990]
          (WeatherStation_detach 1 (fst example_station), snd example_station)) 1 = [20] \<and>
   WeatherStation_notify StatisticsDisplay_update
     (WeatherStation_detach 1 (fst example_station)) (snd example_station) 2 = [20, 20]"
proof -
  have run: "(fst example_station, snd example_station) =
     station_run StatisticsDisplay_update
       [Attach 1, Attach 2, Attach 1, SetMeasurements 20 50 1000]
       (WeatherStation_new, \<lambda>r. [])"
    by (simp add: example_station_def)
  note r = observer_attach_detach_notify [OF run, of 1]
  have obs: "observers (fst example_station) = [1, 2]"
    by (simp add: example_station_def station_run_def WeatherStation_attach_def
        WeatherStation_setMeasurements_def WeatherStation_new_def Let_def)
  have temp: "temperature (fst example_station) = 20"
    by (simp add: example_station_def station_run_def WeatherStation_attach_def
        WeatherStation_setMeasurements_def WeatherStation_new_def Let_def)
  have st: "snd example_station 1 = [20]" "snd example_station 2 = [20]"
    by (simp_all add: example_station_def station_run_def WeatherStation_attach_def
        WeatherStation_setMeasurements_def WeatherStation_new_def Let_def
        WeatherStation_notify_def StatisticsDisplay_update_def)
  have temp': "temperature (WeatherStation_detach 1 (fst example_station)) = 20"
    using temp by (simp add: WeatherStation_detach_def Let_def)
  from r obs st temp have a: "WeatherStation_attach 1 (fst example_station) = fst example_station"
    and n: "WeatherStation_notify StatisticsDisplay_update (fst example_station)
              (snd example_station) 1 = [20, 20]"
    by (simp_all add: StatisticsDisplay_update_def)
  from r have b: "1 \<notin> set (observers (WeatherStation_detach 1 (fst example_station)))"
    by blast
  from r [THEN conjunct2, THEN conjunct2, THEN conjunct2, THEN conjunct1, rule_format,
          of "[SetMeasurements 25 40 990]"] st
  have c: "snd (station_run StatisticsDisplay_update [SetMeasurements 25 40 990]
          (WeatherStation_detach 1 (fst example_station), snd example_station)) 1 = [20]"
    by simp
  from r [THEN conjunct2, THEN conjunct2, THEN conjunct2, THEN conjunct2, rule_format, of 2] obs st temp'
  have e: "WeatherStation_notify StatisticsDisplay_update
     (WeatherStation_detach 1 (fst example_station)) (snd example_station) 2 = [20, 20]"
    by (simp add: StatisticsDisplay_update_def)
  from obs a n b c e show ?thesis by blast
qed

subsection \<open>Singleton: one instance\<close>

lemma getInstance_total:
  "\<exists>obj c'. Singleton_getInstance c = Inr (obj, c') \<and> static_instance c' = Some obj"
  by (cases "static_instance c")
     (simp_all add: Singleton_getInstance_def Singleton_constructor_def)

lemma call_when_set:
  "static_instance c = Some obj \<Longrightarrow> Singleton_call c call = (expected_after_first obj call, c)"
  by (cases call) (simp_all add: Singleton_getInstance_def Singleton_constructor_def)

lemma calls_when_set:
  "static_instance c = Some obj \<Longrightarrow>
   Singleton_calls c calls = (map (expected_after_first obj) calls, c)"
  by (induction calls) (simp_all add: call_when_set)

text \<open>
  C5. From any state of the \<^verbatim>\<open>Singleton\<close> class, \<^verbatim>\<open>getInstance()\<close> returns an instance,
  and the next \<^verbatim>\<open>getInstance()\<close> returns the identical reference; once the first call
  has occurred, a direct \<^verbatim>\<open>new Singleton()\<close> throws, and this stays so through any
  further sequence of accessor calls and construction attempts, all of which return the
  same instance or throw.
\<close>

theorem singleton_identical_instance:
  "\<exists>obj c'. Singleton_getInstance c = Inr (obj, c') \<and>
     Singleton_getInstance c' = Inr (obj, c') \<and>
     Singleton_constructor c' = Inl already_exists \<and>
     (\<forall>calls. Singleton_calls c' calls = (map (expected_after_first obj) calls, c'))"
proof -
  from getInstance_total [of c] obtain obj c'
    where g: "Singleton_getInstance c = Inr (obj, c')" and s: "static_instance c' = Some obj"
    by blast
  from s have "Singleton_getInstance c' = Inr (obj, c')"
    by (simp add: Singleton_getInstance_def)
  moreover from s have "Singleton_constructor c' = Inl already_exists"
    by (simp add: Singleton_constructor_def)
  moreover from s have "\<forall>calls. Singleton_calls c' calls = (map (expected_after_first obj) calls, c')"
    by (simp add: calls_when_set)
  ultimately show ?thesis using g by blast
qed

subsection \<open>Proxy: cache invalidation and read access\<close>

lemma checkAccess_read:
  "checkAccess ''read'' now p = (True, p\<lparr>lastAccess := Some now\<rparr>)"
  by (simp add: checkAccess_def)

lemma checkAccess_write:
  "checkAccess ''write'' now p = (accessLevel p = ''write'', p\<lparr>lastAccess := Some now\<rparr>)"
  by (simp add: checkAccess_def Let_def)

lemma getData_empty_cache:
  "cache p = [] \<Longrightarrow>
   \<exists>p'. DatabaseProxy_getData now q p = 
      (Inr \<lparr>query = q, timestamp = now,
             results = [(1, ''Sample data 1''), (2, ''Sample data 2''), (3, ''Sample data 3'')]\<rparr>, p') \<and>
     cacheMisses p' = cacheMisses p + 1 \<and> cacheHits p' = cacheHits p"
  by (cases "realDatabase p")
     (simp_all add: DatabaseProxy_getData_def checkAccess_read getRealDatabase_def
       DatabaseSource_getData_def Let_def)

lemma saveData_cases:
  "DatabaseProxy_saveData now data p =
     (if accessLevel p \<noteq> ''write'' then (Inl write_denied, p\<lparr>lastAccess := Some now\<rparr>)
      else if \<not> truthy data \<or> typeof data \<noteq> ''object''
      then (Inl invalid_data, p\<lparr>lastAccess := Some now\<rparr>)
      else (Inr True,
            (snd (getRealDatabase (p\<lparr>lastAccess := Some now\<rparr>)))
              \<lparr>realDatabase :=
                 Some (snd (DatabaseSource_saveData now data
                              (fst (getRealDatabase (p\<lparr>lastAccess := Some now\<rparr>))))),
               cache := []\<rparr>))"
  by (simp add: DatabaseProxy_saveData_def checkAccess_write DatabaseSource_saveData_def
      Let_def split: prod.splits)

lemma saveData_success:
  "DatabaseProxy_saveData now data p = (Inr r, p') \<Longrightarrow> cache p' = []"
  by (auto simp: saveData_cases split: if_splits)

lemma saveData_denied:
  "accessLevel p \<noteq> ''write'' \<Longrightarrow>
   DatabaseProxy_saveData now data p = (Inl write_denied, p\<lparr>lastAccess := Some now\<rparr>)"
  by (simp add: saveData_cases)


lemma example_proxy_eval:
  "example_proxy =
     \<lparr>connectionString = ''db://example.com/mydb'', accessLevel = ''write'',
      realDatabase = Some \<lparr>db_connectionString = ''db://example.com/mydb'',
                             isConnected = True, connectionTime = Some 100\<rparr>,
      cache = [(''SELECT * FROM users'',
                \<lparr>query = ''SELECT * FROM users'', timestamp = 100,
                 results = [(1, ''Sample data 1''), (2, ''Sample data 2''),
                            (3, ''Sample data 3'')]\<rparr>)],
      cacheHits = 0, cacheMisses = 1, lastAccess = Some 100\<rparr>"
  by (simp add: example_proxy_def DatabaseProxy_getData_def DatabaseProxy_new_def
      checkAccess_read getRealDatabase_def DatabaseSource_getData_def DatabaseSource_new_def
      DatabaseSource_connect_def Let_def)

lemma example_read_proxy_eval:
  "example_read_proxy =
     \<lparr>connectionString = ''db://example.com/mydb'', accessLevel = ''read'',
      realDatabase = Some \<lparr>db_connectionString = ''db://example.com/mydb'',
                             isConnected = True, connectionTime = Some 100\<rparr>,
      cache = [(''SELECT * FROM users'',
                \<lparr>query = ''SELECT * FROM users'', timestamp = 100,
                 results = [(1, ''Sample data 1''), (2, ''Sample data 2''),
                            (3, ''Sample data 3'')]\<rparr>)],
      cacheHits = 0, cacheMisses = 1, lastAccess = Some 100\<rparr>"
  by (simp add: example_read_proxy_def DatabaseProxy_getData_def DatabaseProxy_new_def
      checkAccess_read getRealDatabase_def DatabaseSource_getData_def DatabaseSource_new_def
      DatabaseSource_connect_def Let_def)

text \<open>
  C8. The query cache of a \<^verbatim>\<open>DatabaseProxy\<close> is invalidated wholesale on a write: when
  \<^verbatim>\<open>saveData\<close> completes successfully the cache is empty afterwards, so the next
  \<^verbatim>\<open>getData\<close> for any query, previously cached or not, is a cache miss answered by the
  real database; and \<^verbatim>\<open>saveData\<close> on a proxy whose access level is not \<^verbatim>\<open>'write'\<close>
  throws the access-denied error and leaves the cache as it was.
\<close>

theorem proxy_cache_invalidated_on_write:
  "(DatabaseProxy_saveData now data p = (Inr r, p') \<longrightarrow>
      cache p' = [] \<and>
      (\<forall>now' q. \<exists>p''.
         DatabaseProxy_getData now' q p' =
           (Inr \<lparr>query = q, timestamp = now',
                  results = [(1, ''Sample data 1''), (2, ''Sample data 2''),
                             (3, ''Sample data 3'')]\<rparr>, p'') \<and>
         cacheMisses p'' = cacheMisses p' + 1 \<and> cacheHits p'' = cacheHits p')) \<and>
   (accessLevel p \<noteq> ''write'' \<longrightarrow>
      fst (DatabaseProxy_saveData now data p) = Inl write_denied \<and>
      cache (snd (DatabaseProxy_saveData now data p)) = cache p)"
proof -
  have a: "cache p' = [] \<and>
      (\<forall>now' q. \<exists>p''.
         DatabaseProxy_getData now' q p' =
           (Inr \<lparr>query = q, timestamp = now',
                  results = [(1, ''Sample data 1''), (2, ''Sample data 2''),
                             (3, ''Sample data 3'')]\<rparr>, p'') \<and>
         cacheMisses p'' = cacheMisses p' + 1 \<and> cacheHits p'' = cacheHits p')"
    if "DatabaseProxy_saveData now data p = (Inr r, p')"
  proof -
    from that have "cache p' = []" by (rule saveData_success)
    then show ?thesis using getData_empty_cache [of p'] by blast
  qed
  have b: "fst (DatabaseProxy_saveData now data p) = Inl write_denied \<and>
      cache (snd (DatabaseProxy_saveData now data p)) = cache p"
    if "accessLevel p \<noteq> ''write''"
    using that by (simp add: saveData_denied)
  from a b show ?thesis by blast
qed

theorem proxy_cache_invalidated_on_write_witness:
  "fst (DatabaseProxy_saveData 200 example_record example_proxy) = Inr True \<and>
   cache example_proxy \<noteq> [] \<and>
   cache (snd (DatabaseProxy_saveData 200 example_record example_proxy)) = [] \<and>
   cacheMisses (snd (DatabaseProxy_getData 300 ''SELECT * FROM users''
                       (snd (DatabaseProxy_saveData 200 example_record example_proxy)))) = 2 \<and>
   accessLevel example_read_proxy = ''read'' \<and>
   fst (DatabaseProxy_saveData 200 example_record example_read_proxy) = Inl write_denied \<and>
   cache (snd (DatabaseProxy_saveData 200 example_record example_read_proxy)) =
     cache example_read_proxy \<and>
   cache example_read_proxy \<noteq> []"
proof -
  let ?p' = "snd (DatabaseProxy_saveData 200 example_record example_proxy)"
  have ok: "fst (DatabaseProxy_saveData 200 example_record example_proxy) = Inr True"
    by (simp add: saveData_cases example_proxy_eval example_record_def)
  then have run: "DatabaseProxy_saveData 200 example_record example_proxy = (Inr True, ?p')"
    by (simp add: prod_eq_iff)
  have misses: "cacheMisses ?p' = 1"
    by (simp add: saveData_cases example_proxy_eval example_record_def getRealDatabase_def)
  note w = proxy_cache_invalidated_on_write [of 200 example_record example_proxy True ?p',
      THEN conjunct1, rule_format, OF run]
  from w have c: "cache ?p' = []" by blast
  from w obtain p'' where
    "DatabaseProxy_getData 300 ''SELECT * FROM users'' ?p' =
       (Inr \<lparr>query = ''SELECT * FROM users'', timestamp = 300,
              results = [(1, ''Sample data 1''), (2, ''Sample data 2''),
                         (3, ''Sample data 3'')]\<rparr>, p'')"
    "cacheMisses p'' = cacheMisses ?p' + 1"
    by blast
  with misses have m: "cacheMisses (snd (DatabaseProxy_getData 300 ''SELECT * FROM users'' ?p')) = 2"
    by simp
  have lvl: "accessLevel example_read_proxy = ''read''" by (simp add: example_read_proxy_eval)
  then have "accessLevel example_read_proxy \<noteq> ''write''" by simp
  note d = proxy_cache_invalidated_on_write [of 200 example_record example_read_proxy True
      example_read_proxy, THEN conjunct2, rule_format, OF this]
  have ne: "cache example_proxy \<noteq> []" "cache example_read_proxy \<noteq> []"
    by (simp_all add: example_proxy_eval example_read_proxy_eval)
  from ok ne c m lvl d show ?thesis by blast
qed

text \<open>
  C9. For every \<^verbatim>\<open>DatabaseProxy\<close>, whatever its access level, \<^verbatim>\<open>checkAccess('read')\<close>
  returns true, so \<^verbatim>\<open>getData\<close> always returns a result and never throws the
  access-denied error, for any query.
\<close>

theorem proxy_read_access_never_denied:
  "checkAccess ''read'' now p = (True, p\<lparr>lastAccess := Some now\<rparr>) \<and>
   (\<exists>result. fst (DatabaseProxy_getData now q p) = Inr result) \<and>
   fst (DatabaseProxy_getData now q p) \<noteq> Inl read_denied"
proof -
  have "\<exists>result. fst (DatabaseProxy_getData now q p) = Inr result"
    by (cases "map_of (cache p) q")
       (simp_all add: DatabaseProxy_getData_def checkAccess_read Let_def split: prod.splits)
  then show ?thesis by (auto simp: checkAccess_read)
qed

subsection \<open>Bridge: the volume range and the power guard\<close>

lemma clamp_Number:
  "Math_max (Number 0) (Math_min (Number 100) (Number q)) = Number (max 0 (min 100 q))"
  by (simp add: Math_max_def Math_min_def max_def min_def)

lemma clamp_Infinity: "Math_max (Number 0) (Math_min (Number 100) Infinity) = Number 100"
  by (simp add: Math_max_def Math_min_def)

lemma clamp_NegInfinity: "Math_max (Number 0) (Math_min (Number 100) NegInfinity) = Number 0"
  by (simp add: Math_max_def Math_min_def)

lemma clamp_NaN: "Math_max (Number 0) (Math_min (Number 100) NaN) = NaN"
  by (simp add: Math_max_def Math_min_def)

lemma clamp_in_range:
  "percent \<noteq> NaN \<Longrightarrow> in_range (Math_max (Number 0) (Math_min (Number 100) percent))"
  by (cases percent) (simp_all add: clamp_Number clamp_Infinity clamp_NegInfinity in_range_def)

lemma double_of_not_NaN: "double_of x \<noteq> NaN"
  by (simp add: double_of_def Let_def)

lemma in_range_add_not_NaN: "in_range v \<Longrightarrow> js_add v (Number d) \<noteq> NaN"
  by (cases v) (simp_all add: in_range_def double_of_not_NaN)

lemma in_range_sub_not_NaN: "in_range v \<Longrightarrow> js_sub v (Number d) \<noteq> NaN"
  by (cases v) (simp_all add: in_range_def js_sub_def double_of_not_NaN)

lemma TV_call_range:
  "in_range (volume tv) \<Longrightarrow> tv_volume_given c \<Longrightarrow> in_range (volume (TV_call tv c))"
  by (cases c)
     (simp_all add: TV_turnOn_def TV_turnOff_def TV_setVolume_def TV_setChannel_def
        clamp_in_range)

lemma Radio_call_range:
  "in_range (volume r) \<Longrightarrow> radio_volume_given c \<Longrightarrow> in_range (volume (Radio_call r c))"
  by (cases c)
     (simp_all add: Radio_turnOn_def Radio_turnOff_def Radio_setVolume_def Radio_setChannel_def
        Radio_toggleBand_def Let_def clamp_in_range)

lemma SmartSpeaker_call_range:
  "in_range (volume sp) \<Longrightarrow> speaker_volume_given c \<Longrightarrow>
   in_range (volume (SmartSpeaker_call sp c))"
  by (cases c)
     (simp_all add: SmartSpeaker_turnOn_def SmartSpeaker_turnOff_def SmartSpeaker_setVolume_def
        SmartSpeaker_setChannel_def SmartSpeaker_voiceCommand_def clamp_in_range
        in_range_add_not_NaN in_range_sub_not_NaN)

lemma TV_calls_range:
  "in_range (volume tv) \<Longrightarrow> list_all tv_volume_given cs \<Longrightarrow>
   in_range (volume (foldl TV_call tv cs))"
proof (induction cs arbitrary: tv)
  case Nil
  then show ?case by simp
next
  case (Cons c cs)
  from Cons.prems have "in_range (volume (TV_call tv c))" by (simp add: TV_call_range)
  moreover from Cons.prems have "list_all tv_volume_given cs" by simp
  ultimately have "in_range (volume (foldl TV_call (TV_call tv c) cs))" by (rule Cons.IH)
  then show ?case by simp
qed

lemma Radio_calls_range:
  "in_range (volume r) \<Longrightarrow> list_all radio_volume_given cs \<Longrightarrow>
   in_range (volume (foldl Radio_call r cs))"
proof (induction cs arbitrary: r)
  case Nil
  then show ?case by simp
next
  case (Cons c cs)
  from Cons.prems have "in_range (volume (Radio_call r c))" by (simp add: Radio_call_range)
  moreover from Cons.prems have "list_all radio_volume_given cs" by simp
  ultimately have "in_range (volume (foldl Radio_call (Radio_call r c) cs))" by (rule Cons.IH)
  then show ?case by simp
qed

lemma SmartSpeaker_calls_range:
  "in_range (volume sp) \<Longrightarrow> list_all speaker_volume_given cs \<Longrightarrow>
   in_range (volume (foldl SmartSpeaker_call sp cs))"
proof (induction cs arbitrary: sp)
  case Nil
  then show ?case by simp
next
  case (Cons c cs)
  from Cons.prems have "in_range (volume (SmartSpeaker_call sp c))"
    by (simp add: SmartSpeaker_call_range)
  moreover from Cons.prems have "list_all speaker_volume_given cs" by simp
  ultimately have "in_range (volume (foldl SmartSpeaker_call (SmartSpeaker_call sp c) cs))"
    by (rule Cons.IH)
  then show ?case by simp
qed

lemma TV_setVolume_on:
  "isOn tv \<Longrightarrow>
   TV_setVolume (Number q) tv = tv\<lparr>volume := Number (max 0 (min 100 q))\<rparr> \<and>
   TV_setVolume Infinity tv = tv\<lparr>volume := Number 100\<rparr> \<and>
   TV_setVolume NegInfinity tv = tv\<lparr>volume := Number 0\<rparr>"
  by (simp add: TV_setVolume_def clamp_Number clamp_Infinity clamp_NegInfinity)

lemma Radio_setVolume_on:
  "isOn r \<Longrightarrow>
   Radio_setVolume (Number q) r = r\<lparr>volume := Number (max 0 (min 100 q))\<rparr> \<and>
   Radio_setVolume Infinity r = r\<lparr>volume := Number 100\<rparr> \<and>
   Radio_setVolume NegInfinity r = r\<lparr>volume := Number 0\<rparr>"
  by (simp add: Radio_setVolume_def clamp_Number clamp_Infinity clamp_NegInfinity)

lemma SmartSpeaker_setVolume_on:
  "isOn sp \<Longrightarrow>
   SmartSpeaker_setVolume (Number q) sp = sp\<lparr>volume := Number (max 0 (min 100 q))\<rparr> \<and>
   SmartSpeaker_setVolume Infinity sp = sp\<lparr>volume := Number 100\<rparr> \<and>
   SmartSpeaker_setVolume NegInfinity sp = sp\<lparr>volume := Number 0\<rparr>"
  by (simp add: SmartSpeaker_setVolume_def clamp_Number clamp_Infinity clamp_NegInfinity)

lemma off_noop:
  "\<not> isOn tv \<Longrightarrow> TV_setVolume percent tv = tv \<and> TV_setChannel ch tv = tv"
  "\<not> isOn r \<Longrightarrow> Radio_setVolume percent r = r \<and> Radio_setChannel ch r = r"
  "\<not> isOn sp \<Longrightarrow> SmartSpeaker_setVolume percent sp = sp \<and> SmartSpeaker_setChannel ch sp = sp"
  by (simp_all add: TV_setVolume_def TV_setChannel_def Radio_setVolume_def
      Radio_setChannel_def SmartSpeaker_setVolume_def SmartSpeaker_setChannel_def)

lemma speaker_example:
  "volume (foldl SmartSpeaker_call (SmartSpeaker_new ''Samsung'')
             [Speaker_TurnOn, Speaker_SetVolume (Number 5),
              Speaker_VoiceCommand ''Volume DOWN'']) = Number 0"
  by (simp add: SmartSpeaker_new_def SmartSpeaker_turnOn_def SmartSpeaker_setVolume_def
      SmartSpeaker_voiceCommand_def toLowerCase_def lower_char_def clamp_Number js_sub_def
      double_eval)

text \<open>
  The claim C10 as stated keeps the volume between 0 and 100 for every numeric argument.
  \<^verbatim>\<open>NaN\<close> is a number of JavaScript, and \<^verbatim>\<open>Math.max(0, Math.min(100, NaN))\<close> is \<^verbatim>\<open>NaN\<close>:
  after \<^verbatim>\<open>setVolume(NaN)\<close> on a device that is on, the volume of a \<^verbatim>\<open>TV\<close>, a \<^verbatim>\<open>Radio\<close> or
  a \<^verbatim>\<open>SmartSpeaker\<close> is \<^verbatim>\<open>NaN\<close>, which is not in the range.
\<close>

theorem volume_not_a_number_counterexample:
  "foldl TV_call (TV_new ''Samsung'') [TV_TurnOn, TV_SetVolume NaN] =
     \<lparr>brand = ''Samsung'', isOn = True, volume = NaN, tv_channel = Number 1,
      maxChannels = Number 100\<rparr> \<and>
   volume (foldl Radio_call (Radio_new ''Sony'') [Radio_TurnOn, Radio_SetVolume NaN]) = NaN \<and>
   volume (foldl SmartSpeaker_call (SmartSpeaker_new ''Amazon'')
             [Speaker_TurnOn, Speaker_SetVolume NaN]) = NaN \<and>
   in_range NaN = False"
  by (simp add: TV_new_def TV_turnOn_def TV_setVolume_def Radio_new_def Radio_turnOn_def
      Radio_setVolume_def SmartSpeaker_new_def SmartSpeaker_turnOn_def
      SmartSpeaker_setVolume_def clamp_NaN in_range_def)

text \<open>
  C10, as the code has it. For every \<^verbatim>\<open>TV\<close>, \<^verbatim>\<open>Radio\<close> and \<^verbatim>\<open>SmartSpeaker\<close> and every
  sequence of calls in which no \<^verbatim>\<open>setVolume\<close> is given \<^verbatim>\<open>NaN\<close>, the volume stays a number
  between 0 and 100. On a device that is on, \<^verbatim>\<open>setVolume\<close> changes only the volume and
  clamps its argument: \<^verbatim>\<open>setVolume(q)\<close> stores 0 for \<open>q\<close> below 0, 100 for \<open>q\<close> above 100 and
  \<open>q\<close> itself in between, \<^verbatim>\<open>setVolume(Infinity)\<close> stores 100 and \<^verbatim>\<open>setVolume(-Infinity)\<close>
  stores 0. While the device is off, \<^verbatim>\<open>setVolume\<close> and \<^verbatim>\<open>setChannel\<close> leave the device,
  and so its volume and channel or app, unchanged, whatever the argument.
\<close>

theorem device_volume_range_and_off_noop:
  "(list_all tv_volume_given tcs \<longrightarrow> in_range (volume (foldl TV_call (TV_new b) tcs))) \<and>
   (list_all radio_volume_given rcs \<longrightarrow>
      in_range (volume (foldl Radio_call (Radio_new b) rcs))) \<and>
   (list_all speaker_volume_given scs \<longrightarrow>
      in_range (volume (foldl SmartSpeaker_call (SmartSpeaker_new b) scs))) \<and>
   (isOn tv \<longrightarrow>
      TV_setVolume (Number q) tv = tv\<lparr>volume := Number (max 0 (min 100 q))\<rparr> \<and>
      TV_setVolume Infinity tv = tv\<lparr>volume := Number 100\<rparr> \<and>
      TV_setVolume NegInfinity tv = tv\<lparr>volume := Number 0\<rparr>) \<and>
   (isOn r \<longrightarrow>
      Radio_setVolume (Number q) r = r\<lparr>volume := Number (max 0 (min 100 q))\<rparr> \<and>
      Radio_setVolume Infinity r = r\<lparr>volume := Number 100\<rparr> \<and>
      Radio_setVolume NegInfinity r = r\<lparr>volume := Number 0\<rparr>) \<and>
   (isOn sp \<longrightarrow>
      SmartSpeaker_setVolume (Number q) sp = sp\<lparr>volume := Number (max 0 (min 100 q))\<rparr> \<and>
      SmartSpeaker_setVolume Infinity sp = sp\<lparr>volume := Number 100\<rparr> \<and>
      SmartSpeaker_setVolume NegInfinity sp = sp\<lparr>volume := Number 0\<rparr>) \<and>
   (\<not> isOn tv' \<longrightarrow> TV_setVolume percent tv' = tv' \<and> TV_setChannel ch tv' = tv') \<and>
   (\<not> isOn r' \<longrightarrow> Radio_setVolume percent r' = r' \<and> Radio_setChannel ch r' = r') \<and>
   (\<not> isOn sp' \<longrightarrow>
      SmartSpeaker_setVolume percent sp' = sp' \<and> SmartSpeaker_setChannel ch sp' = sp')"
proof -
  have "in_range (volume (TV_new b))" by (simp add: TV_new_def in_range_def)
  then have tv: "list_all tv_volume_given tcs \<longrightarrow>
                 in_range (volume (foldl TV_call (TV_new b) tcs))"
    by (simp add: TV_calls_range)
  have "in_range (volume (Radio_new b))" by (simp add: Radio_new_def in_range_def)
  then have radio: "list_all radio_volume_given rcs \<longrightarrow>
                    in_range (volume (foldl Radio_call (Radio_new b) rcs))"
    by (simp add: Radio_calls_range)
  have "in_range (volume (SmartSpeaker_new b))" by (simp add: SmartSpeaker_new_def in_range_def)
  then have speaker: "list_all speaker_volume_given scs \<longrightarrow>
                      in_range (volume (foldl SmartSpeaker_call (SmartSpeaker_new b) scs))"
    by (simp add: SmartSpeaker_calls_range)
  from tv radio speaker TV_setVolume_on [of tv q] Radio_setVolume_on [of r q]
    SmartSpeaker_setVolume_on [of sp q] off_noop(1) [of tv' percent ch]
    off_noop(2) [of r' percent ch] off_noop(3) [of sp' percent ch]
  show ?thesis by simp
qed

text \<open>
  The law C10 on a TV set to 150, a radio set to \<^verbatim>\<open>-Infinity\<close>, a speaker set to 5 and
  told \<^verbatim>\<open>'Volume DOWN'\<close>, and on three devices that are off.
\<close>

theorem device_volume_range_and_off_noop_witness:
  "list_all tv_volume_given [TV_TurnOn, TV_SetVolume (Number 150)] \<and>
   in_range (volume (foldl TV_call (TV_new ''Samsung'') [TV_TurnOn, TV_SetVolume (Number 150)])) \<and>
   list_all radio_volume_given [Radio_TurnOn, Radio_SetVolume NegInfinity, Radio_ToggleBand] \<and>
   in_range (volume (foldl Radio_call (Radio_new ''Samsung'')
                       [Radio_TurnOn, Radio_SetVolume NegInfinity, Radio_ToggleBand])) \<and>
   list_all speaker_volume_given
     [Speaker_TurnOn, Speaker_SetVolume (Number 5), Speaker_VoiceCommand ''Volume DOWN''] \<and>
   in_range (volume (foldl SmartSpeaker_call (SmartSpeaker_new ''Samsung'')
                       [Speaker_TurnOn, Speaker_SetVolume (Number 5),
                        Speaker_VoiceCommand ''Volume DOWN''])) \<and>
   volume (foldl TV_call (TV_new ''Samsung'') [TV_TurnOn, TV_SetVolume (Number 150)]) =
     Number 100 \<and>
   volume (foldl Radio_call (Radio_new ''Samsung'')
             [Radio_TurnOn, Radio_SetVolume NegInfinity, Radio_ToggleBand]) = Number 0 \<and>
   volume (foldl SmartSpeaker_call (SmartSpeaker_new ''Samsung'')
             [Speaker_TurnOn, Speaker_SetVolume (Number 5),
              Speaker_VoiceCommand ''Volume DOWN'']) = Number 0 \<and>
   isOn (TV_turnOn (TV_new ''Samsung'')) \<and>
   volume (TV_turnOn (TV_new ''Samsung'')) = Number 30 \<and>
   volume (TV_setVolume (Number 150) (TV_turnOn (TV_new ''Samsung''))) = Number 100 \<and>
   volume (TV_setVolume Infinity (TV_turnOn (TV_new ''Samsung''))) = Number 100 \<and>
   volume (TV_setVolume NegInfinity (TV_turnOn (TV_new ''Samsung''))) = Number 0 \<and>
   isOn (Radio_turnOn (Radio_new ''Samsung'')) \<and>
   volume (Radio_turnOn (Radio_new ''Samsung'')) = Number 20 \<and>
   volume (Radio_setVolume (Number 150) (Radio_turnOn (Radio_new ''Samsung''))) = Number 100 \<and>
   volume (Radio_setVolume NegInfinity (Radio_turnOn (Radio_new ''Samsung''))) = Number 0 \<and>
   isOn (SmartSpeaker_turnOn (SmartSpeaker_new ''Samsung'')) \<and>
   volume (SmartSpeaker_turnOn (SmartSpeaker_new ''Samsung'')) = Number 40 \<and>
   volume (SmartSpeaker_setVolume (Number 150) (SmartSpeaker_turnOn (SmartSpeaker_new ''Samsung'')))
     = Number 100 \<and>
   \<not> isOn (TV_new ''Sony'') \<and>
   TV_setVolume (Number 150) (TV_new ''Sony'') = TV_new ''Sony'' \<and>
   TV_setChannel (Number 15) (TV_new ''Sony'') = TV_new ''Sony'' \<and>
   \<not> isOn (Radio_new ''Sony'') \<and>
   Radio_setVolume (Number 150) (Radio_new ''Sony'') = Radio_new ''Sony'' \<and>
   Radio_setChannel (Number 15) (Radio_new ''Sony'') = Radio_new ''Sony'' \<and>
   \<not> isOn (SmartSpeaker_new ''Sony'') \<and>
   SmartSpeaker_setVolume (Number 150) (SmartSpeaker_new ''Sony'') = SmartSpeaker_new ''Sony'' \<and>
   SmartSpeaker_setChannel (Number 15) (SmartSpeaker_new ''Sony'') = SmartSpeaker_new ''Sony''"
proof -
  note w = device_volume_range_and_off_noop [where b = "''Samsung''"
      and tcs = "[TV_TurnOn, TV_SetVolume (Number 150)]"
      and rcs = "[Radio_TurnOn, Radio_SetVolume NegInfinity, Radio_ToggleBand]"
      and scs = "[Speaker_TurnOn, Speaker_SetVolume (Number 5),
                  Speaker_VoiceCommand ''Volume DOWN'']"
      and tv = "TV_turnOn (TV_new ''Samsung'')" and r = "Radio_turnOn (Radio_new ''Samsung'')"
      and sp = "SmartSpeaker_turnOn (SmartSpeaker_new ''Samsung'')" and q = 150
      and tv' = "TV_new ''Sony''" and r' = "Radio_new ''Sony''"
      and sp' = "SmartSpeaker_new ''Sony''" and percent = "Number 150" and ch = "Number 15"]
  have given: "list_all tv_volume_given [TV_TurnOn, TV_SetVolume (Number 150)]"
    "list_all radio_volume_given [Radio_TurnOn, Radio_SetVolume NegInfinity, Radio_ToggleBand]"
    "list_all speaker_volume_given
       [Speaker_TurnOn, Speaker_SetVolume (Number 5), Speaker_VoiceCommand ''Volume DOWN'']"
    by simp_all
  have on: "isOn (TV_turnOn (TV_new ''Samsung''))" "isOn (Radio_turnOn (Radio_new ''Samsung''))"
    "isOn (SmartSpeaker_turnOn (SmartSpeaker_new ''Samsung''))"
    by (simp_all add: TV_turnOn_def Radio_turnOn_def SmartSpeaker_turnOn_def)
  have off: "\<not> isOn (TV_new ''Sony'')" "\<not> isOn (Radio_new ''Sony'')"
    "\<not> isOn (SmartSpeaker_new ''Sony'')"
    by (simp_all add: TV_new_def Radio_new_def SmartSpeaker_new_def)
  have start: "volume (TV_turnOn (TV_new ''Samsung'')) = Number 30"
    "volume (Radio_turnOn (Radio_new ''Samsung'')) = Number 20"
    "volume (SmartSpeaker_turnOn (SmartSpeaker_new ''Samsung'')) = Number 40"
    by (simp_all add: TV_turnOn_def Radio_turnOn_def SmartSpeaker_turnOn_def TV_new_def
        Radio_new_def SmartSpeaker_new_def)
  note range = w [THEN conjunct1, THEN mp, OF given(1)]
    w [THEN conjunct2, THEN conjunct1, THEN mp, OF given(2)]
    w [THEN conjunct2, THEN conjunct2, THEN conjunct1, THEN mp, OF given(3)]
  note tv = w [THEN conjunct2, THEN conjunct2, THEN conjunct2, THEN conjunct1, THEN mp, OF on(1)]
  note radio = w [THEN conjunct2, THEN conjunct2, THEN conjunct2, THEN conjunct2, THEN conjunct1,
      THEN mp, OF on(2)]
  note speaker = w [THEN conjunct2, THEN conjunct2, THEN conjunct2, THEN conjunct2,
      THEN conjunct2, THEN conjunct1, THEN mp, OF on(3)]
  note tv_off = w [THEN conjunct2, THEN conjunct2, THEN conjunct2, THEN conjunct2,
      THEN conjunct2, THEN conjunct2, THEN conjunct1, THEN mp, OF off(1)]
  note radio_off = w [THEN conjunct2, THEN conjunct2, THEN conjunct2, THEN conjunct2,
      THEN conjunct2, THEN conjunct2, THEN conjunct2, THEN conjunct1, THEN mp, OF off(2)]
  note speaker_off = w [THEN conjunct2, THEN conjunct2, THEN conjunct2, THEN conjunct2,
      THEN conjunct2, THEN conjunct2, THEN conjunct2, THEN conjunct2, THEN mp, OF off(3)]
  have vals: "volume (TV_setVolume (Number 150) (TV_turnOn (TV_new ''Samsung''))) = Number 100"
    "volume (TV_setVolume Infinity (TV_turnOn (TV_new ''Samsung''))) = Number 100"
    "volume (TV_setVolume NegInfinity (TV_turnOn (TV_new ''Samsung''))) = Number 0"
    "volume (Radio_setVolume (Number 150) (Radio_turnOn (Radio_new ''Samsung''))) = Number 100"
    "volume (Radio_setVolume NegInfinity (Radio_turnOn (Radio_new ''Samsung''))) = Number 0"
    "volume (SmartSpeaker_setVolume (Number 150)
               (SmartSpeaker_turnOn (SmartSpeaker_new ''Samsung''))) = Number 100"
    by (simp_all only: tv radio speaker) simp_all
  have runs:
    "volume (foldl TV_call (TV_new ''Samsung'') [TV_TurnOn, TV_SetVolume (Number 150)]) =
       Number 100"
    "volume (foldl Radio_call (Radio_new ''Samsung'')
               [Radio_TurnOn, Radio_SetVolume NegInfinity, Radio_ToggleBand]) = Number 0"
    using vals on by (simp_all add: Radio_toggleBand_def Let_def)
  from given on off start range vals runs speaker_example tv_off radio_off speaker_off
  show ?thesis
    by (intro conjI) (assumption | erule conjunct1 | erule conjunct2)+
qed

subsection \<open>Error handling: what throws and what does not\<close>

lemma goToState_out_of_range:
  "\<not> (0 \<le> index \<and> index < int (length (states h))) \<Longrightarrow>
   EditorHistory_goToState index h = Inr (None, h)"
  by (auto simp: EditorHistory_goToState_def)

lemma speaker_setChannel_out_of_range:
  "\<not> (0 \<le> q \<and> q < real (length (availableApps sp))) \<Longrightarrow>
   Device_setChannel (Number q) (SpeakerDevice sp) = Inr (SpeakerDevice sp)"
  by (auto simp: SmartSpeaker_setChannel_def)

lemma speaker_setChannel_not_finite:
  "Device_setChannel NaN (SpeakerDevice sp) = Inr (SpeakerDevice sp) \<and>
   Device_setChannel Infinity (SpeakerDevice sp) = Inr (SpeakerDevice sp) \<and>
   Device_setChannel NegInfinity (SpeakerDevice sp) = Inr (SpeakerDevice sp)"
  by (simp add: SmartSpeaker_setChannel_def)

lemma createUser_unknown:
  "toLowerCase type \<notin> {''admin'', ''customer'', ''guest''} \<Longrightarrow>
   UserFactory_createUser now rnd type data =
     Inl (Error (''User type '' @ type @ '' is not recognized.''))"
  by (simp add: UserFactory_createUser_def)

lemma adapter_unknown_transaction:
  "map_of (intentMap a) transactionId = None \<Longrightarrow>
   ModernPaymentAdapter_refundPayment now sfx transactionId amount a =
     Inl (Error (''Unknown transaction ID: '' @ transactionId)) \<and>
   ModernPaymentAdapter_verifyPayment now transactionId a =
     Inl (Error (''Unknown transaction ID: '' @ transactionId))"
  by (simp add: ModernPaymentAdapter_refundPayment_def ModernPaymentAdapter_verifyPayment_def)

lemma example_speaker_eval:
  "example_speaker =
     \<lparr>brand = ''Amazon'', isOn = True, volume = Number 40, currentApp = Some ''None'',
      availableApps = [''Music'', ''Podcast'', ''News'', ''Weather'', ''Home Control'']\<rparr>"
  by (simp add: example_speaker_def SmartSpeaker_turnOn_def SmartSpeaker_new_def)

lemma example_history_length:
  "length (states (push_all (save_all example_snaps) EditorHistory_new)) = 3"
  by (simp add: push_all_new save_all_def example_snaps_def)

lemmas stub_defs =
  FileSystemComponent_getName_def FileSystemComponent_getSize_def
  FileSystemComponent_getType_def FileSystemComponent_print_def
  FileSystemComponent_getPath_def FileSystemComponent_add_def
  FileSystemComponent_remove_def FileSystemComponent_getChild_def
  FileSystemComponent_isLeaf_def
  PaymentProcessor_processPayment_def PaymentProcessor_refundPayment_def
  PaymentProcessor_verifyPayment_def DataSource_getData_def DataSource_saveData_def
  Subject_attach_def Subject_detach_def Subject_notify_def Observer_update_def
  Button_render_def Button_onClick_def Checkbox_render_def Checkbox_toggle_def
  FormInput_render_def FormInput_getValue_def UIFactory_createButton_def
  UIFactory_createCheckbox_def UIFactory_createFormInput_def Document_open_def
  Document_save_def Application_createDocument_def

text \<open>
  The claim C7 as stated asks for an error on every out-of-range index. On a history of
  three states \<^verbatim>\<open>goToState(5)\<close> returns \<^verbatim>\<open>null\<close>, and on a speaker with five apps
  \<^verbatim>\<open>setChannel(7)\<close> returns normally: neither call throws.
\<close>

theorem out_of_range_index_returns_counterexample:
  "EditorHistory_goToState 5 (push_all (save_all example_snaps) EditorHistory_new) =
     Inr (None, push_all (save_all example_snaps) EditorHistory_new) \<and>
   \<not> isl (EditorHistory_goToState 5 (push_all (save_all example_snaps) EditorHistory_new)) \<and>
   Device_setChannel (Number 7) (SpeakerDevice example_speaker) =
     Inr (SpeakerDevice example_speaker) \<and>
   \<not> isl (Device_setChannel (Number 7) (SpeakerDevice example_speaker))"
  by (simp add: EditorHistory_goToState_def example_history_length
      SmartSpeaker_setChannel_def example_speaker_eval)

text \<open>
  C7, as the code has it. The examples throw a generic \<^verbatim>\<open>Error\<close> for every unimplemented
  abstract operation: the methods of the base classes \<^verbatim>\<open>Coffee\<close> (\<^verbatim>\<open>getCost\<close>,
  \<^verbatim>\<open>getDescription\<close>), \<^verbatim>\<open>DeviceImplementation\<close> (\<^verbatim>\<open>turnOn\<close>, \<^verbatim>\<open>turnOff\<close>, \<^verbatim>\<open>setVolume\<close>,
  \<^verbatim>\<open>setChannel\<close>, \<^verbatim>\<open>getStatus\<close>), \<^verbatim>\<open>FileSystemComponent\<close> (\<^verbatim>\<open>getName\<close>, \<^verbatim>\<open>getSize\<close>,
  \<^verbatim>\<open>getType\<close>, \<^verbatim>\<open>print\<close>, \<^verbatim>\<open>getPath\<close>, \<^verbatim>\<open>add\<close>, \<^verbatim>\<open>remove\<close>, \<^verbatim>\<open>getChild\<close>, \<^verbatim>\<open>isLeaf\<close>),
  \<^verbatim>\<open>PaymentProcessor\<close> (\<^verbatim>\<open>processPayment\<close>, \<^verbatim>\<open>refundPayment\<close>, \<^verbatim>\<open>verifyPayment\<close>),
  \<^verbatim>\<open>DataSource\<close> (\<^verbatim>\<open>getData\<close>, \<^verbatim>\<open>saveData\<close>), \<^verbatim>\<open>Subject\<close> (\<^verbatim>\<open>attach\<close>, \<^verbatim>\<open>detach\<close>,
  \<^verbatim>\<open>notify\<close>), \<^verbatim>\<open>Observer\<close> (\<^verbatim>\<open>update\<close>), \<^verbatim>\<open>Button\<close>, \<^verbatim>\<open>Checkbox\<close>, \<^verbatim>\<open>FormInput\<close>,
  \<^verbatim>\<open>UIFactory\<close>, \<^verbatim>\<open>Document\<close> and \<^verbatim>\<open>Application\<close>. They throw one for an unknown factory
  key (\<^verbatim>\<open>UserFactory.createUser\<close> with a type that is none of admin, customer and
  guest) and for a missing adapter mapping (\<^verbatim>\<open>ModernPaymentAdapter\<close>'s \<^verbatim>\<open>refundPayment\<close>
  and \<^verbatim>\<open>verifyPayment\<close> on an unknown transaction id). An index out of range is not an
  error: \<^verbatim>\<open>EditorHistory.goToState\<close> returns \<^verbatim>\<open>null\<close> and \<^verbatim>\<open>SmartSpeaker.setChannel\<close>
  returns normally, each leaving its object unchanged.
\<close>

theorem errors_for_invalid_input:
  "(toLowerCase type \<notin> {''admin'', ''customer'', ''guest''} \<longrightarrow>
      UserFactory_createUser now rnd type data =
        Inl (Error (''User type '' @ type @ '' is not recognized.''))) \<and>
   (map_of (intentMap a) transactionId = None \<longrightarrow>
      ModernPaymentAdapter_refundPayment now sfx transactionId amount a =
        Inl (Error (''Unknown transaction ID: '' @ transactionId)) \<and>
      ModernPaymentAdapter_verifyPayment now transactionId a =
        Inl (Error (''Unknown transaction ID: '' @ transactionId))) \<and>
   (\<not> (0 \<le> index \<and> index < int (length (states h))) \<longrightarrow>
      EditorHistory_goToState index h = Inr (None, h)) \<and>
   (\<not> (0 \<le> q \<and> q < real (length (availableApps sp))) \<longrightarrow>
      Device_setChannel (Number q) (SpeakerDevice sp) = Inr (SpeakerDevice sp)) \<and>
   Device_setChannel NaN (SpeakerDevice sp) = Inr (SpeakerDevice sp) \<and>
   Device_setChannel Infinity (SpeakerDevice sp) = Inr (SpeakerDevice sp) \<and>
   Device_setChannel NegInfinity (SpeakerDevice sp) = Inr (SpeakerDevice sp) \<and>
   Coffee_getCost Coffee =
     Inl (Error ''getCost method must be implemented by concrete classes'') \<and>
   Coffee_getDescription Coffee =
     Inl (Error ''getDescription method must be implemented by concrete classes'') \<and>
   Device_turnOn AbstractDevice =
     Inl (Error ''turnOn method must be implemented by concrete classes'') \<and>
   Device_turnOff AbstractDevice =
     Inl (Error ''turnOff method must be implemented by concrete classes'') \<and>
   Device_setVolume percent AbstractDevice =
     Inl (Error ''setVolume method must be implemented by concrete classes'') \<and>
   Device_setChannel ch AbstractDevice =
     Inl (Error ''setChannel method must be implemented by concrete classes'') \<and>
   Device_getStatus AbstractDevice =
     Inl (Error ''getStatus method must be implemented by concrete classes'') \<and>
   FileSystemComponent_getName =
     Inl (Error ''getName method must be implemented by concrete classes'') \<and>
   FileSystemComponent_getSize =
     Inl (Error ''getSize method must be implemented by concrete classes'') \<and>
   FileSystemComponent_getType =
     Inl (Error ''getType method must be implemented by concrete classes'') \<and>
   FileSystemComponent_print indent =
     Inl (Error ''print method must be implemented by concrete classes'') \<and>
   FileSystemComponent_getPath =
     Inl (Error ''getPath method must be implemented by concrete classes'') \<and>
   FileSystemComponent_add component = Inl (Error ''Operation not supported'') \<and>
   FileSystemComponent_remove component = Inl (Error ''Operation not supported'') \<and>
   FileSystemComponent_getChild childName = Inl (Error ''Operation not supported'') \<and>
   FileSystemComponent_isLeaf =
     Inl (Error ''isLeaf method must be implemented by concrete classes'') \<and>
   PaymentProcessor_processPayment amount currency paymentDetails =
     Inl (Error ''processPayment method must be implemented by concrete classes'') \<and>
   PaymentProcessor_refundPayment transactionId amount =
     Inl (Error ''refundPayment method must be implemented by concrete classes'') \<and>
   PaymentProcessor_verifyPayment transactionId =
     Inl (Error ''verifyPayment method must be implemented by concrete classes'') \<and>
   DataSource_getData queryText =
     Inl (Error ''getData method must be implemented by concrete classes'') \<and>
   DataSource_saveData saved =
     Inl (Error ''saveData method must be implemented by concrete classes'') \<and>
   Subject_attach observer =
     Inl (Error ''attach method must be implemented by concrete classes'') \<and>
   Subject_detach observer =
     Inl (Error ''detach method must be implemented by concrete classes'') \<and>
   Subject_notify = Inl (Error ''notify method must be implemented by concrete classes'') \<and>
   Observer_update subject =
     Inl (Error ''update method must be implemented by concrete classes'') \<and>
   Button_render =
     Inl (Error ''Abstract method: render() must be implemented by subclasses'') \<and>
   Button_onClick =
     Inl (Error ''Abstract method: onClick() must be implemented by subclasses'') \<and>
   Checkbox_render =
     Inl (Error ''Abstract method: render() must be implemented by subclasses'') \<and>
   Checkbox_toggle =
     Inl (Error ''Abstract method: toggle() must be implemented by subclasses'') \<and>
   FormInput_render =
     Inl (Error ''Abstract method: render() must be implemented by subclasses'') \<and>
   FormInput_getValue =
     Inl (Error ''Abstract method: getValue() must be implemented by subclasses'') \<and>
   UIFactory_createButton =
     Inl (Error ''Abstract method: createButton() must be implemented by subclasses'') \<and>
   UIFactory_createCheckbox =
     Inl (Error ''Abstract method: createCheckbox() must be implemented by subclasses'') \<and>
   UIFactory_createFormInput =
     Inl (Error ''Abstract method: createFormInput() must be implemented by subclasses'') \<and>
   Document_open =
     Inl (Error ''Abstract method: open() must be implemented by subclasses'') \<and>
   Document_save =
     Inl (Error ''Abstract method: save() must be implemented by subclasses'') \<and>
   Application_createDocument docName =
     Inl (Error ''Factory method createDocument() must be implemented by subclasses'')"
  using createUser_unknown [of type now rnd data]
    adapter_unknown_transaction [of a transactionId now sfx amount]
    goToState_out_of_range [of index h]
    speaker_setChannel_out_of_range [of q sp]
    speaker_setChannel_not_finite [of sp]
  by (simp add: stub_defs)


text \<open>
  The law C7 on an unknown user type, an unknown transaction id, the index -1 of a
  history of three states and the app index 5 of a speaker with five apps.
\<close>

theorem errors_for_invalid_input_witness:
  "toLowerCase ''Unknown'' \<notin> {''admin'', ''customer'', ''guest''} \<and>
   UserFactory_createUser 1701 42 ''Unknown'' no_data =
     Inl (Error ''User type Unknown is not recognized.'') \<and>
   map_of (intentMap example_adapter) ''MODERN-1700-8'' = None \<and>
   ModernPaymentAdapter_refundPayment 1701 ''q7'' ''MODERN-1700-8'' 200 example_adapter =
     Inl (Error ''Unknown transaction ID: MODERN-1700-8'') \<and>
   ModernPaymentAdapter_verifyPayment 1701 ''MODERN-1700-8'' example_adapter =
     Inl (Error ''Unknown transaction ID: MODERN-1700-8'') \<and>
   isl (ModernPaymentAdapter_verifyPayment 1701 ''MODERN-1700-7'' example_adapter) = False \<and>
   EditorHistory_goToState (-1) (push_all (save_all example_snaps) EditorHistory_new) =
     Inr (None, push_all (save_all example_snaps) EditorHistory_new) \<and>
   length (availableApps example_speaker) = 5 \<and>
   Device_setChannel (Number 5) (SpeakerDevice example_speaker) =
     Inr (SpeakerDevice example_speaker)"
proof -
  have adapter: "example_adapter = \<lparr>intentMap = [(''MODERN-1700-7'', ''pi_k3j9x'')]\<rparr>"
    by (simp add: example_adapter_def ModernPaymentAdapter_processPayment_def
        ModernPaymentAdapter_new_def show_nat.simps digit_char_def Let_def)
  note w = errors_for_invalid_input [where type = "''Unknown''" and now = 1701 and rnd = 42
      and data = no_data and a = example_adapter and transactionId = "''MODERN-1700-8''"
      and sfx = "''q7''" and amount = 200 and index = "-1"
      and h = "push_all (save_all example_snaps) EditorHistory_new" and q = 5
      and sp = example_speaker and percent = "Number 150" and ch = "Number 3"
      and indent = "''  ''" and component = "File ''a.txt'' (Number 10) ''root''"
      and childName = "''a.txt''" and currency = "''GBP''" and paymentDetails = "''4242''"
      and queryText = "''users''" and saved = JNull and observer = 0
      and subject = WeatherStation_new and docName = "''report''"]
  have t: "toLowerCase ''Unknown'' \<notin> {''admin'', ''customer'', ''guest''}"
    by (simp add: toLowerCase_def lower_char_def)
  have m: "map_of (intentMap example_adapter) ''MODERN-1700-8'' = None"
    by (simp add: adapter)
  have i: "\<not> (0 \<le> (-1::int) \<and>
               (-1::int) < int (length (states (push_all (save_all example_snaps)
                                                   (EditorHistory_new :: TextEditorMemento EditorHistory)))))"
    by simp
  have n: "length (availableApps example_speaker) = 5"
    by (simp add: example_speaker_eval)
  then have s: "\<not> (0 \<le> (5::real) \<and> (5::real) < real (length (availableApps example_speaker)))"
    by simp
  have v: "isl (ModernPaymentAdapter_verifyPayment 1701 ''MODERN-1700-7'' example_adapter) = False"
    by (simp add: adapter ModernPaymentAdapter_verifyPayment_def)
  note user = w [THEN conjunct1, THEN mp, OF t]
  note pay = w [THEN conjunct2, THEN conjunct1, THEN mp, OF m]
  note state = w [THEN conjunct2, THEN conjunct2, THEN conjunct1, THEN mp, OF i]
  note app = w [THEN conjunct2, THEN conjunct2, THEN conjunct2, THEN conjunct1, THEN mp, OF s]
  from t user m pay [THEN conjunct1] pay [THEN conjunct2] v state n app show ?thesis
    by (intro conjI) simp_all
qed

subsection \<open>Memento: what stays fixed in a memento, and the caretakers\<close>

lemma map_of_Map_set:
  "map_of (Map_set k v kvs) k' = (if k' = k then Some v else map_of kvs k')"
  by (induction kvs) auto

lemma setLabel_state:
  "GameCharacterMemento_getState (GameCharacterMemento_setLabel l m) =
     GameCharacterMemento_getState m \<and>
   gm_timestamp (GameCharacterMemento_setLabel l m) = gm_timestamp m"
  by (simp add: GameCharacterMemento_getState_def GameCharacterMemento_setLabel_def)

lemma getState_save_character:
  "GameCharacterMemento_getState (GameCharacter_save now c) = c"
  by (simp add: GameCharacterMemento_getState_def GameCharacter_save_def
      GameCharacterMemento_new_def)

lemma saveCharacter_lookup:
  "map_of (savedGames (SaveManager_saveCharacter now c label mgr)) n =
     (if n = gc_name c
      then Some ((case map_of (savedGames mgr) (gc_name c) of None \<Rightarrow> [] | Some saves \<Rightarrow> saves) @
                 [case label of
                    None \<Rightarrow> GameCharacter_save now c
                  | Some l \<Rightarrow> if l \<noteq> [] then GameCharacterMemento_setLabel l (GameCharacter_save now c)
                              else GameCharacter_save now c])
      else map_of (savedGames mgr) n)"
  by (cases "map_of (savedGames mgr) (gc_name c)")
     (simp_all add: SaveManager_saveCharacter_def Let_def map_of_Map_set)

lemma restore_same_name:
  "gc_name c' = gm_name m \<Longrightarrow> GameCharacter_restore m c' = GameCharacterMemento_getState m"
  by (simp add: GameCharacter_restore_def GameCharacterMemento_getState_def Let_def)

lemma undo_natural:
  "EditorHistory_undo (map_history f h) = map_result f (EditorHistory_undo h)"
  by (simp add: EditorHistory_undo_def map_history_def map_result_def index_at_def Let_def)

lemma redo_natural:
  "EditorHistory_redo (map_history f h) = map_result f (EditorHistory_redo h)"
  by (simp add: EditorHistory_redo_def map_history_def map_result_def index_at_def Let_def)

lemma goToState_natural:
  "EditorHistory_goToState i (map_history f h) = map_sum id (map_result f) (EditorHistory_goToState i h)"
  by (auto simp: EditorHistory_goToState_def map_history_def map_result_def index_at_def)

lemma slice0_map: "slice0 (map f xs) e = map f (slice0 xs e)"
  by (simp add: slice0_def take_map)

lemma push_natural:
  "EditorHistory_push (f m) (map_history f h) = map_history f (EditorHistory_push m h)"
  by (simp add: EditorHistory_push_def map_history_def Let_def slice0_map)

lemma enumerate_map: "enumerate n (map f xs) = map (apsnd f) (enumerate n xs)"
  by (induction xs arbitrary: n) simp_all

lemma getStateList_natural:
  "EditorHistory_getStateList d (map_history f h) = EditorHistory_getStateList (d \<circ> f) h"
  by (simp add: EditorHistory_getStateList_def map_history_def enumerate_map split_def o_def)


lemma save_character_fields:
  "gm_timestamp (GameCharacter_save now c) = now \<and> gm_name (GameCharacter_save now c) = gc_name c"
  by (simp add: GameCharacter_save_def GameCharacterMemento_new_def)

lemma setLabel_name: "gm_name (GameCharacterMemento_setLabel l m) = gm_name m"
  by (simp add: GameCharacterMemento_setLabel_def)

lemma saved_memento_cases:
  "GameCharacterMemento_getState
     (case label of
        None \<Rightarrow> GameCharacter_save now c
      | Some l \<Rightarrow> if l \<noteq> [] then GameCharacterMemento_setLabel l (GameCharacter_save now c)
                  else GameCharacter_save now c) = c \<and>
   gm_timestamp
     (case label of
        None \<Rightarrow> GameCharacter_save now c
      | Some l \<Rightarrow> if l \<noteq> [] then GameCharacterMemento_setLabel l (GameCharacter_save now c)
                  else GameCharacter_save now c) = now \<and>
   gm_name
     (case label of
        None \<Rightarrow> GameCharacter_save now c
      | Some l \<Rightarrow> if l \<noteq> [] then GameCharacterMemento_setLabel l (GameCharacter_save now c)
                  else GameCharacter_save now c) = gc_name c"
  by (cases label)
     (simp_all add: setLabel_state setLabel_name getState_save_character save_character_fields)

lemma push_keeps_prefix:
  "prefix (butlast (states (EditorHistory_push tm h))) (states h) \<and>
   last (states (EditorHistory_push tm h)) = tm"
  by (simp add: EditorHistory_push_def Let_def slice0_def take_is_prefix)

lemma undo_redo_keep_states:
  "states (snd (EditorHistory_undo h)) = states h \<and>
   states (snd (EditorHistory_redo h)) = states h"
  by (simp add: EditorHistory_undo_def EditorHistory_redo_def Let_def)

lemma hero_eval:
  "hero = \<lparr>gc_name = ''Hero'', gc_level = 1, gc_health = 100, gc_inventory = [],
           gc_position = \<lparr>pos_x = 0, pos_y = 0\<rparr>, gc_skills = []\<rparr>"
  by (simp add: hero_def GameCharacter_new_def)

lemma hero_save_eval:
  "GameCharacter_save 0 hero =
     \<lparr>gm_name = ''Hero'', gm_level = 1, gm_health = 100, gm_inventory = [],
      gm_position = \<lparr>pos_x = 0, pos_y = 0\<rparr>, gm_skills = [], gm_timestamp = 0,
      gm_label = ''Save - Hero (Lvl 1)''\<rparr>"
  by (simp add: hero_eval GameCharacter_save_def GameCharacterMemento_new_def show_nat.simps
      digit_char_def)

text \<open>
  The claim C6 as stated says that no field of any memento changes after construction.
  \<^verbatim>\<open>saveCharacter(hero, 'Game Start')\<close> on a new manager stores the memento with the
  label \<^verbatim>\<open>'Game Start'\<close>, while the constructor had set \<^verbatim>\<open>'Save - Hero (Lvl 1)'\<close>.
\<close>

theorem memento_label_changed_after_construction_counterexample:
  "map_of (savedGames (SaveManager_saveCharacter 0 hero (Some ''Game Start'') SaveManager_new))
     ''Hero'' =
     Some [GameCharacterMemento_setLabel ''Game Start'' (GameCharacter_save 0 hero)] \<and>
   gm_label (GameCharacter_save 0 hero) = ''Save - Hero (Lvl 1)'' \<and>
   gm_label (GameCharacterMemento_setLabel ''Game Start'' (GameCharacter_save 0 hero)) =
     ''Game Start'' \<and>
   GameCharacterMemento_setLabel ''Game Start'' (GameCharacter_save 0 hero) \<noteq>
     GameCharacter_save 0 hero"
proof -
  have a: "map_of (savedGames (SaveManager_saveCharacter 0 hero (Some ''Game Start'')
                                 SaveManager_new)) ''Hero'' =
           Some [GameCharacterMemento_setLabel ''Game Start'' (GameCharacter_save 0 hero)]"
    by (simp add: saveCharacter_lookup SaveManager_new_def hero_eval)
  have b: "gm_label (GameCharacter_save 0 hero) = ''Save - Hero (Lvl 1)''"
    by (simp add: hero_save_eval)
  have c: "gm_label (GameCharacterMemento_setLabel ''Game Start'' (GameCharacter_save 0 hero)) =
           ''Game Start''"
    by (simp add: GameCharacterMemento_setLabel_def)
  have d: "GameCharacterMemento_setLabel ''Game Start'' (GameCharacter_save 0 hero) \<noteq>
     GameCharacter_save 0 hero"
  proof
    assume "GameCharacterMemento_setLabel ''Game Start'' (GameCharacter_save 0 hero) =
      GameCharacter_save 0 hero"
    then have "gm_label (GameCharacterMemento_setLabel ''Game Start'' (GameCharacter_save 0 hero)) =
      gm_label (GameCharacter_save 0 hero)"
      by (rule arg_cong)
    then show False unfolding b c by simp
  qed
  from a b c d show ?thesis by (intro conjI)
qed

text \<open>
  C6, as the code has it. The saved state and the creation time of a memento never
  change after construction; the one mutator in the program is
  \<^verbatim>\<open>GameCharacterMemento.setLabel\<close>, which \<^verbatim>\<open>SaveManager.saveCharacter\<close> calls on the new
  memento when a label is given, and it changes the label only. \<^verbatim>\<open>saveCharacter\<close>
  appends the new memento after the saves already stored for the character, whose state
  it holds, leaves the other characters' saves alone, and \<^verbatim>\<open>loadCharacter\<close> at that
  position restores that state. \<^verbatim>\<open>EditorHistory\<close> keeps every stored memento as it is
  (undo and redo keep the list, push keeps a prefix of it and adds the new memento last)
  and does not look inside a memento: its operations commute with any replacement of
  the mementos, and \<^verbatim>\<open>getStateList\<close> uses only their \<^verbatim>\<open>getDescription\<close>.
\<close>

theorem memento_state_kept_and_opaque:
  "GameCharacterMemento_getState (GameCharacterMemento_setLabel l m) =
     GameCharacterMemento_getState m \<and>
   gm_timestamp (GameCharacterMemento_setLabel l m) = gm_timestamp m \<and>
   (\<exists>m'. map_of (savedGames (SaveManager_saveCharacter now c label mgr)) (gc_name c) =
            Some ((case map_of (savedGames mgr) (gc_name c) of None \<Rightarrow> [] | Some saves \<Rightarrow> saves) @
                  [m']) \<and>
          GameCharacterMemento_getState m' = c \<and> gm_timestamp m' = now) \<and>
   (n \<noteq> gc_name c \<longrightarrow>
      map_of (savedGames (SaveManager_saveCharacter now c label mgr)) n =
        map_of (savedGames mgr) n) \<and>
   (gc_name c' = gc_name c \<longrightarrow>
      SaveManager_loadCharacter c'
        (int (length (case map_of (savedGames mgr) (gc_name c) of
                        None \<Rightarrow> [] | Some saves \<Rightarrow> saves)))
        (SaveManager_saveCharacter now c label mgr) = c) \<and>
   states (snd (EditorHistory_undo h)) = states h \<and>
   states (snd (EditorHistory_redo h)) = states h \<and>
   prefix (butlast (states (EditorHistory_push tm h))) (states h) \<and>
   last (states (EditorHistory_push tm h)) = tm \<and>
   EditorHistory_undo (map_history f h) = map_result f (EditorHistory_undo h) \<and>
   EditorHistory_redo (map_history f h) = map_result f (EditorHistory_redo h) \<and>
   EditorHistory_push (f tm) (map_history f h) = map_history f (EditorHistory_push tm h) \<and>
   EditorHistory_goToState i (map_history f h) =
     map_sum id (map_result f) (EditorHistory_goToState i h) \<and>
   EditorHistory_getStateList d (map_history f h) = EditorHistory_getStateList (d \<circ> f) h"
proof -
  let ?old = "case map_of (savedGames mgr) (gc_name c) of None \<Rightarrow> [] | Some saves \<Rightarrow> saves"
  let ?m = "case label of
        None \<Rightarrow> GameCharacter_save now c
      | Some l \<Rightarrow> if l \<noteq> [] then GameCharacterMemento_setLabel l (GameCharacter_save now c)
                  else GameCharacter_save now c"
  let ?mgr = "SaveManager_saveCharacter now c label mgr"
  have look: "map_of (savedGames ?mgr) (gc_name c) = Some (?old @ [?m])"
    by (simp add: saveCharacter_lookup)
  have st: "GameCharacterMemento_getState ?m = c" "gm_timestamp ?m = now" "gm_name ?m = gc_name c"
    using saved_memento_cases [where label = label and now = now and c = c] by simp_all
  from look st have C1: "\<exists>m'. map_of (savedGames ?mgr) (gc_name c) = Some (?old @ [m']) \<and>
          GameCharacterMemento_getState m' = c \<and> gm_timestamp m' = now"
    by blast
  have C2: "n \<noteq> gc_name c \<longrightarrow> map_of (savedGames ?mgr) n = map_of (savedGames mgr) n"
    by (simp add: saveCharacter_lookup)
  have D: "gc_name c' = gc_name c \<longrightarrow>
      SaveManager_loadCharacter c' (int (length ?old)) ?mgr = c"
  proof
    assume nm: "gc_name c' = gc_name c"
    then have "SaveManager_loadCharacter c' (int (length ?old)) ?mgr = GameCharacter_restore ?m c'"
      by (simp add: SaveManager_loadCharacter_def look)
    also have "\<dots> = GameCharacterMemento_getState ?m"
      using nm st(3) by (intro restore_same_name) simp
    finally show "SaveManager_loadCharacter c' (int (length ?old)) ?mgr = c"
      by (simp only: st(1))
  qed
  note s = setLabel_state [of l m]
  note u = undo_redo_keep_states [of h]
  note p = push_keeps_prefix [of tm h]
  show ?thesis
    by (intro conjI;
        rule s [THEN conjunct1] s [THEN conjunct2] C1 C2 D u [THEN conjunct1] u [THEN conjunct2]
          p [THEN conjunct1] p [THEN conjunct2] undo_natural redo_natural push_natural
          goToState_natural getStateList_natural)
qed

lemma example_manager_lookup:
  "map_of (savedGames example_manager) ''Hero'' =
     Some [GameCharacterMemento_setLabel ''Game Start'' (GameCharacter_save 0 hero)]"
  by (simp add: example_manager_def saveCharacter_lookup SaveManager_new_def hero_eval)

lemma equipped_hero_name: "gc_name equipped_hero = ''Hero''"
  by (simp add: equipped_hero_def GameCharacter_addItem_def GameCharacter_moveTo_def hero_eval)

theorem memento_state_kept_and_opaque_witness:
  "''Villain'' \<noteq> gc_name equipped_hero \<and>
   map_of (savedGames (SaveManager_saveCharacter 7 equipped_hero None example_manager)) ''Villain'' =
     map_of (savedGames example_manager) ''Villain'' \<and>
   gc_name (GameCharacter_takeDamage 30 equipped_hero) = gc_name equipped_hero \<and>
   SaveManager_loadCharacter (GameCharacter_takeDamage 30 equipped_hero) 1
     (SaveManager_saveCharacter 7 equipped_hero None example_manager) = equipped_hero"
proof -
  note w = memento_state_kept_and_opaque [where c = equipped_hero and now = 7 and label = None
      and mgr = example_manager and n = "''Villain''"
      and c' = "GameCharacter_takeDamage 30 equipped_hero"]
  have a: "''Villain'' \<noteq> gc_name equipped_hero" by (simp add: equipped_hero_name)
  have b: "gc_name (GameCharacter_takeDamage 30 equipped_hero) = gc_name equipped_hero"
    by (simp add: GameCharacter_takeDamage_def)
  have len: "int (length (case map_of (savedGames example_manager) (gc_name equipped_hero) of
                        None \<Rightarrow> [] | Some saves \<Rightarrow> saves)) = 1"
    by (simp add: equipped_hero_name example_manager_lookup)
  note c2 = w [THEN conjunct2, THEN conjunct2, THEN conjunct2, THEN conjunct1, THEN mp, OF a]
  note d = w [THEN conjunct2, THEN conjunct2, THEN conjunct2, THEN conjunct2, THEN conjunct1,
      THEN mp, OF b, unfolded len]
  from a c2 b d show ?thesis by (intro conjI)
qed

end
